theory Spec2Isabelle
  imports Main
begin

section \<open>Python values, dictionaries and exceptions\<close>

text \<open>
  The migration scripts (\<^verbatim>\<open>index.py\<close>, the serverless handler, and
  \<^verbatim>\<open>MySQL_to_MongoDB.py\<close>, the standalone script) build MongoDB documents and
  result objects as Python dictionaries. A dictionary is an association list in
  insertion order with string keys; instants are microseconds since the epoch, and a
  duration (\<^verbatim>\<open>total_seconds()\<close>) is kept as its exact number of microseconds.
\<close>

datatype pyval =
    PNone
  | PBool bool
  | PInt int
  | PStr string
  | PDateTime int
  | PSeconds int
  | PList "pyval list"
  | PDict "(string \<times> pyval) list"

type_synonym pydict = "(string \<times> pyval) list"

fun dict_get :: "string \<Rightarrow> pydict \<Rightarrow> pyval option" where
  "dict_get k [] = None"
| "dict_get k ((k', v) # d) = (if k' = k then Some v else dict_get k d)"

fun dict_set :: "string \<Rightarrow> pyval \<Rightarrow> pydict \<Rightarrow> pydict" where
  "dict_set k v [] = [(k, v)]"
| "dict_set k v ((k', v') # d) = (if k' = k then (k, v) # d else (k', v') # dict_set k v d)"

text \<open>
  A raised exception: the class (what \<^verbatim>\<open>type(e).__name__\<close> prints) and what
  \<^verbatim>\<open>str(e)\<close> needs. \<open>LibraryError\<close> stands for every exception class of the
  MySQL connector and of the MongoDB driver, with its class name and message.
\<close>

datatype exn =
    ValueError string
  | KeyError string
  | TypeError string
  | LibraryError string string

fun exn_name :: "exn \<Rightarrow> string" where
  "exn_name (ValueError m) = ''ValueError''"
| "exn_name (KeyError k) = ''KeyError''"
| "exn_name (TypeError m) = ''TypeError''"
| "exn_name (LibraryError c m) = c"

definition hex_digit :: "nat \<Rightarrow> char" where
  "hex_digit n = ''0123456789abcdef'' ! (n mod 16)"

text \<open>
  \<^verbatim>\<open>repr\<close> of a string: the quote is the double quote only when the text holds a
  single quote and no double quote; backslash, the chosen quote and control characters
  are escaped. Strings are UTF-8 bytes here, and bytes above 127 are kept as they are.
\<close>

definition repr_char :: "char \<Rightarrow> char \<Rightarrow> string" where
  "repr_char q c =
     (if c = q \<or> c = CHR 0x5C then [CHR 0x5C, c]
      else if c = CHR 0x0A then [CHR 0x5C, CHR ''n'']
      else if c = CHR 0x0D then [CHR 0x5C, CHR ''r'']
      else if c = CHR 0x09 then [CHR 0x5C, CHR ''t'']
      else if (of_char c :: nat) < 32 \<or> (of_char c :: nat) = 127
        then [CHR 0x5C, CHR ''x'', hex_digit (of_char c div 16), hex_digit (of_char c mod 16)]
      else [c])"

definition py_repr :: "string \<Rightarrow> string" where
  "py_repr s =
     (let q = (if CHR 0x27 \<in> set s \<and> CHR 0x22 \<notin> set s then CHR 0x22 else CHR 0x27)
      in [q] @ concat (map (repr_char q) s) @ [q])"

fun join_comma :: "string list \<Rightarrow> string" where
  "join_comma [] = []"
| "join_comma [x] = x"
| "join_comma (x # y # ys) = x @ '', '' @ join_comma (y # ys)"

definition py_str_list :: "string list \<Rightarrow> string" where
  "py_str_list xs = ''['' @ join_comma (map py_repr xs) @ '']''"

fun exn_str :: "exn \<Rightarrow> string" where
  "exn_str (ValueError m) = m"
| "exn_str (KeyError k) = py_repr k"
| "exn_str (TypeError m) = m"
| "exn_str (LibraryError c m) = m"

text \<open>The fixed Korean texts of the scripts, as their UTF-8 bytes.\<close>

definition missing_env_prefix :: string where
  "missing_env_prefix =
     [CHR 0xED, CHR 0x95, CHR 0x84, CHR 0xEC, CHR 0x88, CHR 0x98, CHR 0x20, CHR 0xED, CHR 0x99,
      CHR 0x98, CHR 0xEA, CHR 0xB2, CHR 0xBD, CHR 0x20, CHR 0xEB, CHR 0xB3, CHR 0x80, CHR 0xEC,
      CHR 0x88, CHR 0x98, CHR 0xEA, CHR 0xB0, CHR 0x80, CHR 0x20, CHR 0xEB, CHR 0x88, CHR 0x84,
      CHR 0xEB, CHR 0x9D, CHR 0xBD, CHR 0xEB, CHR 0x90, CHR 0x98, CHR 0xEC, CHR 0x97, CHR 0x88,
      CHR 0xEC, CHR 0x8A, CHR 0xB5, CHR 0xEB, CHR 0x8B, CHR 0x88, CHR 0xEB, CHR 0x8B, CHR 0xA4,
      CHR 0x3A, CHR 0x20]"

definition migration_error_prefix :: string where
  "migration_error_prefix =
     [CHR 0xEC, CHR 0x9D, CHR 0xB4, CHR 0xEA, CHR 0xB4, CHR 0x80, CHR 0x20, CHR 0xEC, CHR 0xA4,
      CHR 0x91, CHR 0x20, CHR 0xEC, CHR 0x98, CHR 0xA4, CHR 0xEB, CHR 0xA5, CHR 0x98, CHR 0x20,
      CHR 0xEB, CHR 0xB0, CHR 0x9C, CHR 0xEC, CHR 0x83, CHR 0x9D, CHR 0x3A, CHR 0x20]"

definition error_type_prefix :: string where
  "error_type_prefix =
     [CHR 0xEC, CHR 0x98, CHR 0xA4, CHR 0xEB, CHR 0xA5, CHR 0x98, CHR 0x20, CHR 0xED, CHR 0x83,
      CHR 0x80, CHR 0xEC, CHR 0x9E, CHR 0x85, CHR 0x3A, CHR 0x20]"

definition index_error_prefix :: string where
  "index_error_prefix =
     [CHR 0xEC, CHR 0x9D, CHR 0xB8, CHR 0xEB, CHR 0x8D, CHR 0xB1, CHR 0xEC, CHR 0x8A, CHR 0xA4,
      CHR 0x20, CHR 0xEC, CHR 0x83, CHR 0x9D, CHR 0xEC, CHR 0x84, CHR 0xB1, CHR 0x20, CHR 0xEC,
      CHR 0xA4, CHR 0x91, CHR 0x20, CHR 0xEC, CHR 0x98, CHR 0xA4, CHR 0xEB, CHR 0xA5, CHR 0x98,
      CHR 0x3A, CHR 0x20]"

definition validation_error_prefix :: string where
  "validation_error_prefix =
     [CHR 0xEA, CHR 0xB2, CHR 0x80, CHR 0xEC, CHR 0xA6, CHR 0x9D, CHR 0x20, CHR 0xEC, CHR 0xA4,
      CHR 0x91, CHR 0x20, CHR 0xEC, CHR 0x98, CHR 0xA4, CHR 0xEB, CHR 0xA5, CHR 0x98, CHR 0x3A,
      CHR 0x20]"

definition success_message :: string where
  "success_message =
     [CHR 0xEB, CHR 0x8D, CHR 0xB0, CHR 0xEC, CHR 0x9D, CHR 0xB4, CHR 0xED, CHR 0x84, CHR 0xB0,
      CHR 0x20, CHR 0xEC, CHR 0x9D, CHR 0xB4, CHR 0xEA, CHR 0xB4, CHR 0x80, CHR 0xEC, CHR 0x9D,
      CHR 0xB4, CHR 0x20, CHR 0xEC, CHR 0x84, CHR 0xB1, CHR 0xEA, CHR 0xB3, CHR 0xB5, CHR 0xEC,
      CHR 0xA0, CHR 0x81, CHR 0xEC, CHR 0x9C, CHR 0xBC, CHR 0xEB, CHR 0xA1, CHR 0x9C, CHR 0x20,
      CHR 0xEC, CHR 0x99, CHR 0x84, CHR 0xEB, CHR 0xA3, CHR 0x8C, CHR 0xEB, CHR 0x90, CHR 0x98,
      CHR 0xEC, CHR 0x97, CHR 0x88, CHR 0xEC, CHR 0x8A, CHR 0xB5, CHR 0xEB, CHR 0x8B, CHR 0x88,
      CHR 0xEB, CHR 0x8B, CHR 0xA4, CHR 0x2E]"

section \<open>The relational source\<close>

text \<open>
  Modelled from the spec: the table declarations of the MySQL schema are not among the
  source files. The rows follow section 3 of the specification and the column positions
  the scripts read (\<^verbatim>\<open>customer[0]\<close> to \<^verbatim>\<open>customer[6]\<close>,
  \<^verbatim>\<open>product[0]\<close> to \<^verbatim>\<open>product[6]\<close>, \<^verbatim>\<open>order[0]\<close> to
  \<^verbatim>\<open>order[3]\<close>, and the columns the queries name). A column is optional where the
  scripts test it for null: the product description, the review comment, the order
  amount and the order date.

  An exact decimal \<open>Decimal u k\<close> is the number \<open>u / 10 ^ k\<close>. A date is a day
  number and a date-time a number of microseconds, both counted from the epoch.
\<close>

datatype decimal = Decimal int nat

datatype sqltime = SqlDate int | SqlDateTime int

record customer_row =
  cust_id :: string
  passwd :: string
  cust_name :: string
  m_phone :: string
  agree_terms :: string
  agree_privacy :: string
  agree_marketing :: string

record product_row =
  prod_cd :: string
  prod_name :: string
  price :: decimal
  prod_type :: string
  material :: string
  prod_img :: string
  prod_intro :: "string option"

record cart_row =
  cart_seq_no :: int
  cart_cust_id :: string
  cart_prod_cd :: string
  cart_prod_size :: string
  cart_ord_qty :: int
  cart_ord_yn :: string

record order_row =
  ord_no :: int
  ord_date :: "sqltime option"
  ord_amount :: "decimal option"
  ord_cust_id :: string

record ord_item_row =
  ord_item_no :: int
  oi_ord_no :: int
  oi_cart_seq_no :: int
  oi_prod_cd :: string
  oi_prod_size :: string
  oi_ord_qty :: int

record prod_eval_row =
  eval_seq_no :: int
  eval_score :: int
  eval_comment :: "string option"
  pe_cust_id :: string
  pe_prod_cd :: string
  pe_ord_item_no :: int

type_synonym cart_sel = "int \<times> string \<times> string \<times> int \<times> string"

type_synonym item_sel = "int \<times> int \<times> string \<times> string \<times> int \<times> string \<times> decimal"

type_synonym review_sel =
  "int \<times> int \<times> string option \<times> string \<times> string \<times> int \<times> string \<times> int"

text \<open>
  The source: its six tables and, for the one statement whose text depends on the data
  (the cart query below), what the server answers to a text that the reading given
  below does not cover.
\<close>

record database =
  tbl_Customers :: "customer_row list"
  tbl_Products :: "product_row list"
  tbl_Carts :: "cart_row list"
  tbl_Orders :: "order_row list"
  tbl_Ord_items :: "ord_item_row list"
  tbl_Prod_evals :: "prod_eval_row list"
  other_statements :: "string \<Rightarrow> exn + cart_sel list"

text \<open>
  The SQL statements the scripts send. The statements with a fixed text, and the two
  that interpolate a number (the order number, the order-line number), are taken by
  their relational meaning. The cart query interpolates the customer identifier, a text,
  between single quotes; it is sent as the text the script builds (\<open>Sql\<close>), and the
  server reads that text.
\<close>

datatype query =
    SelectCustomers
  | SelectProducts
  | SelectOrders
  | Sql string
  | SelectOrderItems int
  | CountReviews int
  | SelectReviews
  | CountCustomers
  | CountProducts
  | CountOrders
  | CountProdEvals

text \<open>
  \<^verbatim>\<open>cart_query\<close>, the same formatted string in both scripts: a line break and twelve
  spaces before each of its four lines, the identifier pasted between two single quotes,
  and a line break and eight spaces at the end.
\<close>

definition indent :: string where
  "indent = ''            ''"

definition cart_query_head :: string where
  "cart_query_head =
     [CHR 0x0A] @ indent @ ''SELECT cart_seq_no, prod_cd, prod_size, ord_qty, ord_yn'' @
     [CHR 0x0A] @ indent @ ''FROM Carts '' @
     [CHR 0x0A] @ indent @ ''WHERE cust_id = '' @ [CHR 0x27]"

definition cart_query_tail :: string where
  "cart_query_tail =
     [CHR 0x27, CHR 0x0A] @ indent @ ''ORDER BY cart_seq_no'' @ [CHR 0x0A] @ ''        ''"

definition cart_query :: "string \<Rightarrow> string" where
  "cart_query cid = cart_query_head @ cid @ cart_query_tail"

text \<open>
  How the server reads such a text. The text is cut into tokens: words, string literals,
  the equals sign and the comma, separated by blanks. Inside a string literal two single
  quotes in a row stand for one, and a backslash escapes the character after it; a
  single quote followed by anything else ends the literal. Any other character outside a
  literal (a comment mark, a parenthesis, a double quote) is beyond this reading.
\<close>

datatype token = Word string | Lit string | Eq | Comma

datatype lexer = Outside | In_word string | In_lit string | Escaped string | Quote_seen string
  | Unknown

definition is_space :: "char \<Rightarrow> bool" where
  "is_space c = (c = CHR 0x20 \<or> c = CHR 0x0A \<or> c = CHR 0x0D \<or> c = CHR 0x09)"

definition is_word :: "char \<Rightarrow> bool" where
  "is_word c =
     (let n = (of_char c :: nat)
      in (48 \<le> n \<and> n \<le> 57) \<or> (65 \<le> n \<and> n \<le> 90) \<or> (97 \<le> n \<and> n \<le> 122) \<or> n = 95)"

definition upper :: "char \<Rightarrow> char" where
  "upper c = (let n = (of_char c :: nat) in if 97 \<le> n \<and> n \<le> 122 then char_of (n - 32) else c)"

definition unescape :: "char \<Rightarrow> string" where
  "unescape c =
     (if c = CHR ''0'' then [CHR 0x00]
      else if c = CHR ''b'' then [CHR 0x08]
      else if c = CHR ''n'' then [CHR 0x0A]
      else if c = CHR ''r'' then [CHR 0x0D]
      else if c = CHR ''t'' then [CHR 0x09]
      else if c = CHR ''Z'' then [CHR 0x1A]
      else if c = CHR ''%'' \<or> c = CHR ''_'' then [CHR 0x5C, c]
      else [c])"

definition outside :: "token list \<Rightarrow> char \<Rightarrow> token list \<times> lexer" where
  "outside ts c =
     (if is_space c then (ts, Outside)
      else if c = CHR 0x27 then (ts, In_lit [])
      else if c = CHR ''='' then (ts @ [Eq], Outside)
      else if c = CHR '','' then (ts @ [Comma], Outside)
      else if is_word c then (ts, In_word [c])
      else (ts, Unknown))"

fun lex_step :: "token list \<times> lexer \<Rightarrow> char \<Rightarrow> token list \<times> lexer" where
  "lex_step (ts, Outside) c = outside ts c"
| "lex_step (ts, In_word w) c =
     (if is_word c then (ts, In_word (w @ [c])) else outside (ts @ [Word w]) c)"
| "lex_step (ts, In_lit v) c =
     (if c = CHR 0x27 then (ts, Quote_seen v)
      else if c = CHR 0x5C then (ts, Escaped v)
      else (ts, In_lit (v @ [c])))"
| "lex_step (ts, Escaped v) c = (ts, In_lit (v @ unescape c))"
| "lex_step (ts, Quote_seen v) c =
     (if c = CHR 0x27 then (ts, In_lit (v @ [CHR 0x27])) else outside (ts @ [Lit v]) c)"
| "lex_step (ts, Unknown) c = (ts, Unknown)"

datatype lexed = Tokens "token list" | Unterminated | Unlexed

fun lex_end :: "token list \<times> lexer \<Rightarrow> lexed" where
  "lex_end (ts, Outside) = Tokens ts"
| "lex_end (ts, In_word w) = Tokens (ts @ [Word w])"
| "lex_end (ts, Quote_seen v) = Tokens (ts @ [Lit v])"
| "lex_end (ts, In_lit v) = Unterminated"
| "lex_end (ts, Escaped v) = Unterminated"
| "lex_end (ts, Unknown) = Unlexed"

definition sql_tokens :: "string \<Rightarrow> lexed" where
  "sql_tokens text = lex_end (foldl lex_step ([], Outside) text)"

text \<open>
  The tokens up to the pasted literal, and what may follow it: comparisons of two
  literals joined by \<^verbatim>\<open>OR\<close> or \<^verbatim>\<open>AND\<close>, then the ordering clause. Only a
  comparison of a literal with itself is read (it is true whatever the collation); the
  result says whether an \<^verbatim>\<open>OR\<close> is among the joints.
\<close>

definition cart_select_tokens :: "token list" where
  "cart_select_tokens =
     [Word ''SELECT'', Word ''cart_seq_no'', Comma, Word ''prod_cd'', Comma, Word ''prod_size'',
      Comma, Word ''ord_qty'', Comma, Word ''ord_yn'', Word ''FROM'', Word ''Carts'',
      Word ''WHERE'', Word ''cust_id'', Eq]"

fun where_tail :: "token list \<Rightarrow> bool option" where
  "where_tail (Word w # Lit a # Eq # Lit b # rest) =
     (if a = b \<and> (map upper w = ''OR'' \<or> map upper w = ''AND'')
      then map_option (\<lambda>any_or. any_or \<or> map upper w = ''OR'') (where_tail rest)
      else None)"
| "where_tail [Word w1, Word w2, Word w3] =
     (if map upper w1 = ''ORDER'' \<and> map upper w2 = ''BY'' \<and> w3 = ''cart_seq_no''
      then Some False else None)"
| "where_tail ts = None"

text \<open>
  What the statement asks for: it is malformed (a string literal that never ends), or it
  selects the cart rows of one identifier (the value of the literal, which is the pasted
  text when that holds no quote and no backslash), or every cart row (a true comparison
  joined by \<^verbatim>\<open>OR\<close>), or it is a text this reading does not cover.
\<close>

datatype cart_condition = Malformed | Equal_to string | Every_row | Unread

definition read_cart_query :: "string \<Rightarrow> cart_condition" where
  "read_cart_query text =
     (case sql_tokens text of
        Unterminated \<Rightarrow> Malformed
      | Unlexed \<Rightarrow> Unread
      | Tokens ts \<Rightarrow>
          if take (length cart_select_tokens) ts = cart_select_tokens
          then (case drop (length cart_select_tokens) ts of
                  Lit v # rest \<Rightarrow>
                    (case where_tail rest of
                       Some True \<Rightarrow> Every_row
                     | Some False \<Rightarrow> Equal_to v
                     | None \<Rightarrow> Unread)
                | _ \<Rightarrow> Unread)
          else Unread)"

text \<open>
  \<^verbatim>\<open>SELECT cart_seq_no, prod_cd, prod_size, ord_qty, ord_yn FROM Carts
  WHERE cust_id = '...' ORDER BY cart_seq_no\<close> for one identifier, the same columns of
  every row, and the answer of the server to the text of a cart query. Identifiers are
  compared character by character.
\<close>

definition select_cart :: "database \<Rightarrow> string \<Rightarrow> cart_sel list" where
  "select_cart db cid =
     map (\<lambda>r. (cart_seq_no r, cart_prod_cd r, cart_prod_size r, cart_ord_qty r, cart_ord_yn r))
       (sort_key cart_seq_no (filter (\<lambda>r. cart_cust_id r = cid) (tbl_Carts db)))"

definition select_every_cart :: "database \<Rightarrow> cart_sel list" where
  "select_every_cart db =
     map (\<lambda>r. (cart_seq_no r, cart_prod_cd r, cart_prod_size r, cart_ord_qty r, cart_ord_yn r))
       (sort_key cart_seq_no (tbl_Carts db))"

definition run_cart_query :: "database \<Rightarrow> string \<Rightarrow> exn + cart_sel list" where
  "run_cart_query db text =
     (case read_cart_query text of
        Malformed \<Rightarrow>
          Inl (LibraryError ''ProgrammingError'' ''You have an error in your SQL syntax'')
      | Equal_to v \<Rightarrow> Inr (select_cart db v)
      | Every_row \<Rightarrow> Inr (select_every_cart db)
      | Unread \<Rightarrow> other_statements db text)"

text \<open>
  \<^verbatim>\<open>SELECT oi.ord_item_no, oi.cart_seq_no, oi.prod_cd, oi.prod_size, oi.ord_qty,
  p.prod_name, p.price FROM Ord_items oi JOIN Products p ON oi.prod_cd = p.prod_cd
  WHERE oi.ord_no = ...\<close>: an inner join, one result row for each pair of an order line
  and a product row with the same product code.
\<close>

definition select_order_items :: "database \<Rightarrow> int \<Rightarrow> item_sel list" where
  "select_order_items db n =
     concat (map (\<lambda>oi.
        map (\<lambda>p. (ord_item_no oi, oi_cart_seq_no oi, oi_prod_cd oi, oi_prod_size oi,
                   oi_ord_qty oi, prod_name p, price p))
          (filter (\<lambda>p. oi_prod_cd oi = prod_cd p) (tbl_Products db)))
       (filter (\<lambda>oi. oi_ord_no oi = n) (tbl_Ord_items db)))"

text \<open>\<^verbatim>\<open>SELECT COUNT(*) as review_count FROM Prod_evals WHERE ord_item_no = ...\<close>\<close>

definition count_reviews :: "database \<Rightarrow> int \<Rightarrow> int" where
  "count_reviews db n = int (length (filter (\<lambda>r. pe_ord_item_no r = n) (tbl_Prod_evals db)))"

text \<open>
  \<^verbatim>\<open>SELECT pe.eval_seq_no, pe.eval_score, pe.eval_comment, pe.cust_id, pe.prod_cd,
  pe.ord_item_no, c.cust_name, oi.ord_no FROM Prod_evals pe
  JOIN Customers c ON pe.cust_id = c.cust_id
  JOIN Ord_items oi ON pe.ord_item_no = oi.ord_item_no\<close>
\<close>

definition select_reviews :: "database \<Rightarrow> review_sel list" where
  "select_reviews db =
     concat (map (\<lambda>pe.
        concat (map (\<lambda>c.
           map (\<lambda>oi. (eval_seq_no pe, eval_score pe, eval_comment pe, pe_cust_id pe,
                       pe_prod_cd pe, pe_ord_item_no pe, cust_name c, oi_ord_no oi))
             (filter (\<lambda>oi. pe_ord_item_no pe = ord_item_no oi) (tbl_Ord_items db)))
          (filter (\<lambda>c. pe_cust_id pe = cust_id c) (tbl_Customers db))))
       (tbl_Prod_evals db))"

section \<open>The documents\<close>

text \<open>
  \<^verbatim>\<open>int(d)\<close> of a \<^verbatim>\<open>Decimal\<close> drops the fraction, towards zero; a
  \<^verbatim>\<open>Decimal\<close> is false exactly when it is zero, a string when it is empty, and
  \<^verbatim>\<open>None\<close> always.
\<close>

fun py_int :: "decimal \<Rightarrow> int" where
  "py_int (Decimal u k) = (if 0 \<le> u then u div 10 ^ k else - ((- u) div 10 ^ k))"

fun decimal_truthy :: "decimal option \<Rightarrow> bool" where
  "decimal_truthy None = False"
| "decimal_truthy (Some (Decimal u k)) = (u \<noteq> 0)"

fun str_truthy :: "string option \<Rightarrow> bool" where
  "str_truthy None = False"
| "str_truthy (Some t) = (t \<noteq> [])"

text \<open>\<^verbatim>\<open>x if x else ""\<close>\<close>

definition or_empty :: "string option \<Rightarrow> pyval" where
  "or_empty x = (if str_truthy x then (case x of Some t \<Rightarrow> PStr t | None \<Rightarrow> PNone) else PStr [])"

text \<open>
  The dictionary literals below are the same lines in both scripts
  (\<^verbatim>\<open>product_doc\<close>, \<^verbatim>\<open>customer_doc\<close>, \<^verbatim>\<open>item_doc\<close>,
  \<^verbatim>\<open>order_doc\<close>, \<^verbatim>\<open>review_doc\<close>), so each is defined once.
\<close>

definition product_doc :: "product_row \<Rightarrow> pyval" where
  "product_doc product =
     PDict [(''_id'', PStr (prod_cd product)),
            (''prod_name'', PStr (prod_name product)),
            (''price'', PInt (py_int (price product))),
            (''prod_type'', PStr (prod_type product)),
            (''material'', PStr (material product)),
            (''prod_img'', PStr (prod_img product)),
            (''detail'', PDict [(''prod_intro'', or_empty (prod_intro product))])]"

definition cart_item_doc :: "cart_sel \<Rightarrow> int \<Rightarrow> pyval" where
  "cart_item_doc item now =
     (case item of (seq_no, cd, sz, qty, yn) \<Rightarrow>
        PDict [(''cart_seq_no'', PInt seq_no),
               (''prod_cd'', PStr cd),
               (''prod_size'', PStr sz),
               (''ord_qty'', PInt qty),
               (''ord_yn'', PStr yn),
               (''added_date'', PDateTime now)])"

definition customer_doc :: "customer_row \<Rightarrow> int \<Rightarrow> pyval list \<Rightarrow> pyval" where
  "customer_doc customer now cart =
     PDict [(''_id'', PStr (cust_id customer)),
            (''passwd'', PStr (passwd customer)),
            (''cust_name'', PStr (cust_name customer)),
            (''m_phone'', PStr (m_phone customer)),
            (''agreements'', PDict [(''terms'', PStr (agree_terms customer)),
                                    (''privacy'', PStr (agree_privacy customer)),
                                    (''marketing'', PStr (agree_marketing customer))]),
            (''created_at'', PDateTime now),
            (''cart'', PList cart)]"

definition item_doc :: "item_sel \<Rightarrow> int \<Rightarrow> pyval" where
  "item_doc item review_count =
     (case item of (item_no, seq_no, cd, sz, qty, name, unit) \<Rightarrow>
        PDict [(''ord_item_no'', PInt item_no),
               (''prod_cd'', PStr cd),
               (''prod_name'', PStr name),
               (''prod_size'', PStr sz),
               (''unit_price'', PInt (py_int unit)),
               (''ord_qty'', PInt qty),
               (''cart_seq_no'', PInt seq_no),
               (''review_written'', PBool (review_count > 0))])"

text \<open>
  \<^verbatim>\<open>datetime.combine(order[1], datetime.min.time()) if isinstance(order[1], date)
  else order[1]\<close>: a \<^verbatim>\<open>datetime\<close> is a \<^verbatim>\<open>date\<close> too, and
  \<^verbatim>\<open>combine\<close> keeps only its date.
\<close>

definition us_per_day :: int where
  "us_per_day = 86400000000"

fun ord_date_value :: "sqltime option \<Rightarrow> pyval" where
  "ord_date_value (Some (SqlDate d)) = PDateTime (d * us_per_day)"
| "ord_date_value (Some (SqlDateTime t)) = PDateTime ((t div us_per_day) * us_per_day)"
| "ord_date_value None = PNone"

definition order_doc :: "order_row \<Rightarrow> pyval list \<Rightarrow> pyval" where
  "order_doc order items_with_review_status =
     PDict [(''ord_no'', PInt (ord_no order)),
            (''ord_date'', ord_date_value (ord_date order)),
            (''ord_amount'',
               PInt (if decimal_truthy (ord_amount order)
                     then (case ord_amount order of Some d \<Rightarrow> py_int d | None \<Rightarrow> 0) else 0)),
            (''cust_id'', PStr (ord_cust_id order)),
            (''items'', PList items_with_review_status)]"

definition review_doc :: "review_sel \<Rightarrow> int \<Rightarrow> pyval" where
  "review_doc review now =
     (case review of (seq_no, score, comment, cid, cd, item_no, name, ono) \<Rightarrow>
        PDict [(''prod_cd'', PStr cd),
               (''cust_id'', PStr cid),
               (''cust_name'', PStr name),
               (''ord_no'', PInt ono),
               (''ord_item_no'', PInt item_no),
               (''eval_score'', PInt score),
               (''eval_comment'', or_empty comment),
               (''eval_date'', PDateTime now)])"

section \<open>The two stores, the clock and the fault schedule\<close>

text \<open>
  The scripts reach the outside through library calls on the MySQL connection and cursor
  and on the MongoDB client. Each call is an entry of type \<open>call\<close>; the state keeps the
  calls made so far (\<open>trace\<close>), and \<open>faults s n c\<close> says whether call \<open>c\<close>, made when
  \<open>n\<close> calls have been made before it, raises. A call that raises is in the trace
  too: it was attempted. \<^verbatim>\<open>cursor.execute\<close> followed by its
  \<^verbatim>\<open>fetchall\<close> or \<^verbatim>\<open>fetchone\<close> is one call.

  A collection is the list of its documents, oldest first; the identifiers the driver
  generates for documents that carry no \<^verbatim>\<open>_id\<close> are not modelled. Of the output,
  the warning and error log lines and the error line the standalone script prints are
  kept; the information lines are not.
\<close>

datatype coll = Products | Customers | Orders | Reviews

datatype call =
    MysqlConnect
  | MysqlCursor
  | MongoClientNew
  | Execute query
  | Drop coll
  | InsertMany coll "pyval list"
  | CreateIndex coll "(string \<times> pyval) list"
  | CountDocuments coll
  | FindOne coll
  | CursorClose
  | ConnectionClose
  | ClientClose

datatype log_level = INFO | WARNING | ERROR

record state =
  environ :: "string \<Rightarrow> string option"
  mysql :: database
  mongo :: "coll \<Rightarrow> pyval list"
  indexes :: "(coll \<times> (string \<times> pyval) list) list"
  faults :: "nat \<Rightarrow> call \<Rightarrow> exn option"
  trace :: "call list"
  clock :: "nat \<Rightarrow> int"
  ticks :: nat
  conn_open :: bool
  cursor_open :: bool
  client_open :: bool
  logged :: "(log_level \<times> string) list"
  printed :: "string list"

type_synonym 'a io = "state \<Rightarrow> (exn + 'a) \<times> state"

definition io_pure :: "'a \<Rightarrow> 'a io" where
  "io_pure x = (\<lambda>s. (Inr x, s))"

definition io_raise :: "exn \<Rightarrow> 'a io" where
  "io_raise e = (\<lambda>s. (Inl e, s))"

definition io_bind :: "'a io \<Rightarrow> ('a \<Rightarrow> 'b io) \<Rightarrow> 'b io" where
  "io_bind m f = (\<lambda>s. case m s of (Inl e, s') \<Rightarrow> (Inl e, s') | (Inr x, s') \<Rightarrow> f x s')"

definition io_lift :: "exn + 'a \<Rightarrow> 'a io" where
  "io_lift r = (\<lambda>s. (r, s))"

fun io_mapM :: "('a \<Rightarrow> 'b io) \<Rightarrow> 'a list \<Rightarrow> 'b list io" where
  "io_mapM f [] = io_pure []"
| "io_mapM f (x # xs) = io_bind (f x) (\<lambda>y. io_bind (io_mapM f xs) (\<lambda>ys. io_pure (y # ys)))"

definition extcall :: "call \<Rightarrow> 'a io \<Rightarrow> 'a io" where
  "extcall c eff =
     (\<lambda>s. let s1 = s\<lparr>trace := trace s @ [c]\<rparr> in
          case faults s (length (trace s)) c of
            Some e \<Rightarrow> (Inl e, s1)
          | None \<Rightarrow> eff s1)"

text \<open>\<^verbatim>\<open>datetime.now()\<close>: the next reading of the clock.\<close>

definition datetime_now :: "int io" where
  "datetime_now = (\<lambda>s. (Inr (clock s (ticks s)), s\<lparr>ticks := Suc (ticks s)\<rparr>))"

definition logger :: "log_level \<Rightarrow> string \<Rightarrow> unit io" where
  "logger lvl msg = (\<lambda>s. (Inr (), s\<lparr>logged := logged s @ [(lvl, msg)]\<rparr>))"

definition print_line :: "string \<Rightarrow> unit io" where
  "print_line msg = (\<lambda>s. (Inr (), s\<lparr>printed := printed s @ [msg]\<rparr>))"

subsection \<open>MySQL\<close>

definition mysql_connect :: "unit io" where
  "mysql_connect = extcall MysqlConnect (\<lambda>s. (Inr (), s\<lparr>conn_open := True\<rparr>))"

definition mysql_cursor :: "unit io" where
  "mysql_cursor = extcall MysqlCursor (\<lambda>s. (Inr (), s\<lparr>cursor_open := True\<rparr>))"

definition cursor_close :: "unit io" where
  "cursor_close = extcall CursorClose (\<lambda>s. (Inr (), s\<lparr>cursor_open := False\<rparr>))"

definition conn_close :: "unit io" where
  "conn_close = extcall ConnectionClose (\<lambda>s. (Inr (), s\<lparr>conn_open := False\<rparr>))"

text \<open>\<^verbatim>\<open>fetch_all_data\<close>, and the same two calls where they are written out.\<close>

definition fetch_all_data :: "query \<Rightarrow> (database \<Rightarrow> 'a) \<Rightarrow> 'a io" where
  "fetch_all_data q rows = extcall (Execute q) (\<lambda>s. (Inr (rows (mysql s)), s))"

text \<open>\<^verbatim>\<open>execute\<close> and \<^verbatim>\<open>fetchall\<close> on the text of a cart query.\<close>

definition execute_cart_query :: "string \<Rightarrow> cart_sel list io" where
  "execute_cart_query text =
     extcall (Execute (Sql text)) (\<lambda>s. (run_cart_query (mysql s) text, s))"

subsection \<open>MongoDB\<close>

definition doc_id :: "pyval \<Rightarrow> pyval option" where
  "doc_id d = (case d of PDict f \<Rightarrow> dict_get ''_id'' f | _ \<Rightarrow> None)"

text \<open>
  An ordered bulk insert: the documents go in one by one, and the first whose
  \<^verbatim>\<open>_id\<close> is already in the collection stops the insert with an error; the documents
  before it stay.
\<close>

fun insert_docs :: "pyval list \<Rightarrow> pyval list \<Rightarrow> exn option \<times> pyval list" where
  "insert_docs [] stored = (None, stored)"
| "insert_docs (d # ds) stored =
     (if doc_id d \<noteq> None \<and> doc_id d \<in> set (map doc_id stored)
      then (Some (LibraryError ''BulkWriteError'' ''batch op errors occurred''), stored)
      else insert_docs ds (stored @ [d]))"

definition mongo_client :: "unit io" where
  "mongo_client = extcall MongoClientNew (\<lambda>s. (Inr (), s\<lparr>client_open := True\<rparr>))"

definition client_close :: "unit io" where
  "client_close = extcall ClientClose (\<lambda>s. (Inr (), s\<lparr>client_open := False\<rparr>))"

text \<open>
  \<^verbatim>\<open>client[name]\<close> makes no call to the server; the driver checks the name.
\<close>

definition mongo_get_database :: "string option \<Rightarrow> unit io" where
  "mongo_get_database name =
     (case name of
        None \<Rightarrow> io_raise (TypeError ''name must be an instance of str'')
      | Some n \<Rightarrow>
          if n = ''$external'' then io_pure ()
          else if n = [] then
            io_raise (LibraryError ''InvalidName'' ''database name cannot be the empty string'')
          else if list_ex (\<lambda>c. c \<in> set n)
                    [CHR 0x20, CHR ''.'', CHR ''$'', CHR ''/'', CHR 0x5C, CHR 0x00, CHR 0x22] then
            io_raise (LibraryError ''InvalidName'' ''database names cannot contain the character'')
          else io_pure ())"

definition mongo_drop :: "coll \<Rightarrow> unit io" where
  "mongo_drop c = extcall (Drop c) (\<lambda>s. (Inr (), s\<lparr>mongo := (mongo s)(c := [])\<rparr>))"

definition mongo_insert_many :: "coll \<Rightarrow> pyval list \<Rightarrow> unit io" where
  "mongo_insert_many c docs =
     extcall (InsertMany c docs)
       (\<lambda>s. case insert_docs docs (mongo s c) of
          (None, stored) \<Rightarrow> (Inr (), s\<lparr>mongo := (mongo s)(c := stored)\<rparr>)
        | (Some e, stored) \<Rightarrow> (Inl e, s\<lparr>mongo := (mongo s)(c := stored)\<rparr>))"

definition mongo_create_index :: "coll \<Rightarrow> (string \<times> pyval) list \<Rightarrow> unit io" where
  "mongo_create_index c keys =
     extcall (CreateIndex c keys) (\<lambda>s. (Inr (), s\<lparr>indexes := List.insert (c, keys) (indexes s)\<rparr>))"

definition mongo_count_documents :: "coll \<Rightarrow> int io" where
  "mongo_count_documents c = extcall (CountDocuments c) (\<lambda>s. (Inr (int (length (mongo s c))), s))"

definition mongo_find_one :: "coll \<Rightarrow> pyval io" where
  "mongo_find_one c =
     extcall (FindOne c) (\<lambda>s. (Inr (case mongo s c of [] \<Rightarrow> PNone | d # ds \<Rightarrow> d), s))"

subsection \<open>What the interpreter does on values\<close>

fun py_truthy :: "pyval \<Rightarrow> bool" where
  "py_truthy PNone = False"
| "py_truthy (PBool b) = b"
| "py_truthy (PInt n) = (n \<noteq> 0)"
| "py_truthy (PStr t) = (t \<noteq> [])"
| "py_truthy (PDateTime t) = True"
| "py_truthy (PSeconds d) = (d \<noteq> 0)"
| "py_truthy (PList xs) = (xs \<noteq> [])"
| "py_truthy (PDict d) = (d \<noteq> [])"

text \<open>\<^verbatim>\<open>x[k]\<close> for a string key \<open>k\<close>.\<close>

fun py_getitem :: "pyval \<Rightarrow> string \<Rightarrow> exn + pyval" where
  "py_getitem (PDict d) k = (case dict_get k d of None \<Rightarrow> Inl (KeyError k) | Some v \<Rightarrow> Inr v)"
| "py_getitem (PStr t) k = Inl (TypeError ''string indices must be integers'')"
| "py_getitem (PList xs) k = Inl (TypeError ''list indices must be integers or slices, not str'')"
| "py_getitem v k = Inl (TypeError ''object is not subscriptable'')"

fun py_len :: "pyval \<Rightarrow> exn + int" where
  "py_len (PStr t) = Inr (int (length t))"
| "py_len (PList xs) = Inr (int (length xs))"
| "py_len (PDict d) = Inr (int (length d))"
| "py_len v = Inl (TypeError ''object has no len()'')"

fun py_iter :: "pyval \<Rightarrow> exn + pyval list" where
  "py_iter (PStr t) = Inr (map (\<lambda>c. PStr [c]) t)"
| "py_iter (PList xs) = Inr xs"
| "py_iter (PDict d) = Inr (map (\<lambda>kv. PStr (fst kv)) d)"
| "py_iter v = Inl (TypeError ''object is not iterable'')"

section \<open>The document assemblers and collection loaders\<close>

text \<open>
  \<^verbatim>\<open>migrate_products_collection\<close> (\<^verbatim>\<open>index.py\<close>) and
  \<^verbatim>\<open>migrate_Products_collection\<close> (\<^verbatim>\<open>MySQL_to_MongoDB.py\<close>): drop, fetch,
  build, insert when there is a document. The handler's functions return a result
  dictionary; the standalone ones return nothing.
\<close>

definition migrate_products_collection :: "pyval io" where
  "migrate_products_collection =
     io_bind (mongo_drop Products) (\<lambda>_.
     io_bind (fetch_all_data SelectProducts tbl_Products) (\<lambda>products.
     let products_docs = map product_doc products in
     io_bind (if products_docs \<noteq> [] then mongo_insert_many Products products_docs
              else io_pure ()) (\<lambda>_.
     io_pure (PDict [(''count'', PInt (int (length products_docs))),
                     (''collection_name'', PStr ''Products''),
                     (''mysql_records'', PInt (int (length products))),
                     (''mongodb_documents'', PInt (int (length products_docs)))]))))"

definition migrate_Products_collection :: "unit io" where
  "migrate_Products_collection =
     io_bind (mongo_drop Products) (\<lambda>_.
     io_bind (fetch_all_data SelectProducts tbl_Products) (\<lambda>products.
     let products_docs = map product_doc products in
     (if products_docs \<noteq> [] then mongo_insert_many Products products_docs else io_pure ())))"

text \<open>
  The body of the loop over the customers: the cart query of this customer, then the
  document, whose \<^verbatim>\<open>created_at\<close> and \<^verbatim>\<open>added_date\<close> fields each read the
  clock. It returns the document and the number of cart rows fetched.
\<close>

definition customer_step :: "customer_row \<Rightarrow> (pyval \<times> nat) io" where
  "customer_step customer =
     io_bind (execute_cart_query (cart_query (cust_id customer))) (\<lambda>cart_items.
     io_bind datetime_now (\<lambda>created_at.
     io_bind (io_mapM (\<lambda>item. io_bind datetime_now (\<lambda>now. io_pure (cart_item_doc item now)))
                cart_items) (\<lambda>cart.
     io_pure (customer_doc customer created_at cart, length cart_items))))"

definition migrate_customers_collection :: "pyval io" where
  "migrate_customers_collection =
     io_bind (mongo_drop Customers) (\<lambda>_.
     io_bind (fetch_all_data SelectCustomers tbl_Customers) (\<lambda>customers.
     io_bind (io_mapM customer_step customers) (\<lambda>steps.
     let customers_docs = map fst steps; total_cart_items = sum_list (map snd steps) in
     io_bind (if customers_docs \<noteq> [] then mongo_insert_many Customers customers_docs
              else io_pure ()) (\<lambda>_.
     io_pure (PDict [(''count'', PInt (int (length customers_docs))),
                     (''collection_name'', PStr ''Customers''),
                     (''mysql_records'', PInt (int (length customers))),
                     (''mongodb_documents'', PInt (int (length customers_docs))),
                     (''total_cart_items'', PInt (int total_cart_items))])))))"

definition migrate_Customers_collection :: "unit io" where
  "migrate_Customers_collection =
     io_bind (mongo_drop Customers) (\<lambda>_.
     io_bind (fetch_all_data SelectCustomers tbl_Customers) (\<lambda>customers.
     io_bind (io_mapM customer_step customers) (\<lambda>steps.
     let customers_docs = map fst steps in
     (if customers_docs \<noteq> [] then mongo_insert_many Customers customers_docs
      else io_pure ()))))"

text \<open>
  The loop over the orders: the line query of this order and, for each line it returns,
  the count of the reviews of that line.
\<close>

definition order_item_step :: "item_sel \<Rightarrow> pyval io" where
  "order_item_step item =
     io_bind (fetch_all_data (CountReviews (fst item)) (\<lambda>db. count_reviews db (fst item)))
       (\<lambda>review_count. io_pure (item_doc item review_count))"

definition order_step :: "order_row \<Rightarrow> (pyval \<times> nat) io" where
  "order_step order =
     io_bind (fetch_all_data (SelectOrderItems (ord_no order))
                (\<lambda>db. select_order_items db (ord_no order))) (\<lambda>order_items.
     io_bind (io_mapM order_item_step order_items) (\<lambda>items_with_review_status.
     io_pure (order_doc order items_with_review_status, length order_items)))"

definition migrate_orders_collection :: "pyval io" where
  "migrate_orders_collection =
     io_bind (mongo_drop Orders) (\<lambda>_.
     io_bind (fetch_all_data SelectOrders tbl_Orders) (\<lambda>orders.
     io_bind (io_mapM order_step orders) (\<lambda>steps.
     let orders_docs = map fst steps; total_order_items = sum_list (map snd steps) in
     io_bind (if orders_docs \<noteq> [] then mongo_insert_many Orders orders_docs
              else io_pure ()) (\<lambda>_.
     io_pure (PDict [(''count'', PInt (int (length orders_docs))),
                     (''collection_name'', PStr ''Orders''),
                     (''mysql_records'', PInt (int (length orders))),
                     (''mongodb_documents'', PInt (int (length orders_docs))),
                     (''total_order_items'', PInt (int total_order_items))])))))"

definition migrate_Orders_collection :: "unit io" where
  "migrate_Orders_collection =
     io_bind (mongo_drop Orders) (\<lambda>_.
     io_bind (fetch_all_data SelectOrders tbl_Orders) (\<lambda>orders.
     io_bind (io_mapM order_step orders) (\<lambda>steps.
     let orders_docs = map fst steps in
     (if orders_docs \<noteq> [] then mongo_insert_many Orders orders_docs else io_pure ()))))"

definition review_step :: "review_sel \<Rightarrow> pyval io" where
  "review_step review = io_bind datetime_now (\<lambda>now. io_pure (review_doc review now))"

definition migrate_reviews_collection :: "pyval io" where
  "migrate_reviews_collection =
     io_bind (mongo_drop Reviews) (\<lambda>_.
     io_bind (fetch_all_data SelectReviews select_reviews) (\<lambda>reviews.
     io_bind (io_mapM review_step reviews) (\<lambda>reviews_docs.
     io_bind (if reviews_docs \<noteq> [] then mongo_insert_many Reviews reviews_docs
              else io_pure ()) (\<lambda>_.
     io_pure (PDict [(''count'', PInt (int (length reviews_docs))),
                     (''collection_name'', PStr ''Reviews''),
                     (''mysql_records'', PInt (int (length reviews))),
                     (''mongodb_documents'', PInt (int (length reviews_docs)))])))))"

definition migrate_Reviews_collection :: "unit io" where
  "migrate_Reviews_collection =
     io_bind (mongo_drop Reviews) (\<lambda>_.
     io_bind (fetch_all_data SelectReviews select_reviews) (\<lambda>reviews.
     io_bind (io_mapM review_step reviews) (\<lambda>reviews_docs.
     (if reviews_docs \<noteq> [] then mongo_insert_many Reviews reviews_docs else io_pure ()))))"

section \<open>The index builder\<close>

definition index_specs :: "(coll \<times> (string \<times> pyval) list) list" where
  "index_specs =
     [(Products, [(''prod_type'', PInt 1), (''price'', PInt 1)]),
      (Products, [(''prod_name'', PStr ''text'')]),
      (Orders, [(''cust_id'', PInt 1), (''ord_date'', PInt (- 1))]),
      (Orders, [(''items.review_written'', PInt 1), (''cust_id'', PInt 1)]),
      (Reviews, [(''prod_cd'', PInt 1), (''eval_date'', PInt (- 1))]),
      (Reviews, [(''cust_id'', PInt 1)])]"

text \<open>
  The six \<^verbatim>\<open>create_index\<close> calls, in the order both scripts make them. The
  standalone \<^verbatim>\<open>create_indexes\<close> is these calls and nothing else; the handler's
  wraps them in \<^verbatim>\<open>try\<close> and logs a warning on any exception.
\<close>

definition create_indexes_standalone :: "unit io" where
  "create_indexes_standalone =
     io_bind (io_mapM (\<lambda>spec. mongo_create_index (fst spec) (snd spec)) index_specs)
       (\<lambda>_. io_pure ())"

definition create_indexes :: "unit io" where
  "create_indexes =
     (\<lambda>s. case create_indexes_standalone s of
        (Inl e, s') \<Rightarrow> logger WARNING (index_error_prefix @ exn_str e) s'
      | (Inr u, s') \<Rightarrow> (Inr (), s'))"

section \<open>The consistency validator\<close>

text \<open>
  The sample reads, the same lines in both scripts: one customer document, whose
  \<^verbatim>\<open>cart\<close> is read twice and whose items are read for \<^verbatim>\<open>ord_yn\<close>, and one
  order document. Every subscript can raise.
\<close>

definition sample_customer_check :: "unit io" where
  "sample_customer_check =
     io_bind (mongo_find_one Customers) (\<lambda>sample_customer.
     if py_truthy sample_customer then
       io_bind (io_lift (py_getitem sample_customer ''cart'')) (\<lambda>cart.
       io_bind (io_lift (py_len cart)) (\<lambda>total_cart_items.
       io_bind (io_lift (py_getitem sample_customer ''cart'')) (\<lambda>cart'.
       io_bind (io_lift (py_iter cart')) (\<lambda>items.
       io_bind (io_mapM (\<lambda>item. io_lift (py_getitem item ''ord_yn'')) items) (\<lambda>flags.
       io_bind (io_lift (py_getitem sample_customer ''_id'')) (\<lambda>_. io_pure ()))))))
     else io_pure ())"

definition sample_order_check :: "unit io" where
  "sample_order_check =
     io_bind (mongo_find_one Orders) (\<lambda>sample_order.
     if py_truthy sample_order then
       io_bind (io_lift (py_getitem sample_order ''ord_no'')) (\<lambda>_.
       io_bind (io_lift (py_getitem sample_order ''items'')) (\<lambda>its.
       io_bind (io_lift (py_len its)) (\<lambda>_. io_pure ())))
     else io_pure ())"

text \<open>The two counts of one entity: the source rows and the destination documents.\<close>

definition count_pair :: "query \<Rightarrow> (database \<Rightarrow> int) \<Rightarrow> coll \<Rightarrow> (int \<times> int) io" where
  "count_pair q rows c =
     io_bind (fetch_all_data q rows) (\<lambda>mysql_count.
     io_bind (mongo_count_documents c) (\<lambda>mongo_count.
     io_pure (mysql_count, mongo_count)))"

definition validate_migration_standalone :: "unit io" where
  "validate_migration_standalone =
     io_bind (count_pair CountCustomers (\<lambda>db. int (length (tbl_Customers db))) Customers) (\<lambda>_.
     io_bind (count_pair CountProducts (\<lambda>db. int (length (tbl_Products db))) Products) (\<lambda>_.
     io_bind (count_pair CountOrders (\<lambda>db. int (length (tbl_Orders db))) Orders) (\<lambda>_.
     io_bind (count_pair CountProdEvals (\<lambda>db. int (length (tbl_Prod_evals db))) Reviews) (\<lambda>_.
     io_bind sample_customer_check (\<lambda>_.
     sample_order_check)))))"

text \<open>
  The handler's validator fills \<^verbatim>\<open>validation_results\<close> statement by statement
  inside \<^verbatim>\<open>try\<close>; the handler of the exception sees the dictionary as the
  statements before the failing one left it. \<open>try_steps\<close> runs the statements in order
  and returns the exception, if any, with the dictionary at that point.
\<close>

fun try_steps :: "(pydict \<Rightarrow> pydict io) list \<Rightarrow> pydict \<Rightarrow> state \<Rightarrow> (exn option \<times> pydict) \<times> state" where
  "try_steps [] vr s = ((None, vr), s)"
| "try_steps (f # fs) vr s =
     (case f vr s of
        (Inl e, s') \<Rightarrow> ((Some e, vr), s')
      | (Inr vr', s') \<Rightarrow> try_steps fs vr' s')"

definition count_step :: "string \<Rightarrow> query \<Rightarrow> (database \<Rightarrow> int) \<Rightarrow> coll \<Rightarrow> pydict \<Rightarrow> pydict io" where
  "count_step key q rows c validation_results =
     io_bind (count_pair q rows c) (\<lambda>counts.
     io_pure (dict_set key
                (PDict [(''mysql_count'', PInt (fst counts)),
                        (''mongodb_count'', PInt (snd counts)),
                        (''match'', PBool (fst counts = snd counts))])
                validation_results))"

text \<open>\<^verbatim>\<open>validation_results[key]['match']\<close>\<close>

definition get_match :: "string \<Rightarrow> pydict \<Rightarrow> pyval io" where
  "get_match key validation_results =
     io_bind (io_lift (py_getitem (PDict validation_results) key)) (\<lambda>entry.
     io_lift (py_getitem entry ''match''))"

text \<open>\<^verbatim>\<open>a and b and c and d\<close>: an operand is read only when those before it are true.\<close>

definition overall_step :: "pydict \<Rightarrow> pydict io" where
  "overall_step validation_results =
     io_bind (get_match ''customers'' validation_results) (\<lambda>a.
     io_bind (if py_truthy a then get_match ''products'' validation_results else io_pure a) (\<lambda>b.
     io_bind (if py_truthy b then get_match ''orders'' validation_results else io_pure b) (\<lambda>c.
     io_bind (if py_truthy c then get_match ''reviews'' validation_results else io_pure c)
       (\<lambda>all_match.
     io_pure (dict_set ''overall_success'' all_match validation_results)))))"

definition validation_steps :: "(pydict \<Rightarrow> pydict io) list" where
  "validation_steps =
     [count_step ''customers'' CountCustomers (\<lambda>db. int (length (tbl_Customers db))) Customers,
      count_step ''products'' CountProducts (\<lambda>db. int (length (tbl_Products db))) Products,
      count_step ''orders'' CountOrders (\<lambda>db. int (length (tbl_Orders db))) Orders,
      count_step ''reviews'' CountProdEvals (\<lambda>db. int (length (tbl_Prod_evals db))) Reviews,
      (\<lambda>vr. io_bind sample_customer_check (\<lambda>_. io_pure vr)),
      (\<lambda>vr. io_bind sample_order_check (\<lambda>_. io_pure vr)),
      overall_step]"

definition validate_migration :: "pyval io" where
  "validate_migration =
     (\<lambda>s. case try_steps validation_steps [] s of
        ((None, validation_results), s') \<Rightarrow> (Inr (PDict validation_results), s')
      | ((Some e, validation_results), s') \<Rightarrow>
          io_bind (logger ERROR (validation_error_prefix @ exn_str e)) (\<lambda>_.
          io_pure (PDict (dict_set ''overall_success'' (PBool False)
                           (dict_set ''error'' (PStr (exn_str e)) validation_results)))) s')"

section \<open>The serverless handler (index.py)\<close>

text \<open>
  The event's three optional entries, and of the Lambda context the request identifier.
  The response body is the dictionary \<^verbatim>\<open>json.dumps\<close> is given; all it holds are
  strings, integers, booleans, durations and instants.
\<close>

record event =
  ev_collections :: "string list option"
  ev_create_indexes :: "bool option"
  ev_validate :: "bool option"

record lambda_context =
  aws_request_id :: string

record response =
  statusCode :: int
  headers :: pydict
  body :: pydict

definition required_vars :: "string list" where
  "required_vars = [''MYSQL_HOST'', ''MYSQL_USER'', ''MYSQL_PASSWORD'', ''MONGODB_URI'']"

text \<open>
  Lines 45 to 59: the configuration is read from the environment, and a required
  variable that is unset or empty raises \<^verbatim>\<open>ValueError\<close>.
\<close>

definition missing_vars :: "state \<Rightarrow> string list" where
  "missing_vars s = filter (\<lambda>v. \<not> str_truthy (environ s v)) required_vars"

definition check_environment :: "unit io" where
  "check_environment =
     (\<lambda>s. if missing_vars s \<noteq> []
          then io_raise (ValueError (missing_env_prefix @ py_str_list (missing_vars s))) s
          else io_pure () s)"

text \<open>
  The loop over \<^verbatim>\<open>collections_to_migrate\<close>: the \<^verbatim>\<open>if\<close>/\<^verbatim>\<open>elif\<close> chain
  has no \<^verbatim>\<open>else\<close>, and the duration is stored under the loop variable after it.
\<close>

definition dispatch :: "string \<Rightarrow> pydict \<Rightarrow> pydict io" where
  "dispatch collection migration_results =
     (if collection = ''Products'' then
        io_bind migrate_products_collection
          (\<lambda>result. io_pure (dict_set ''Products'' result migration_results))
      else if collection = ''Customers'' then
        io_bind migrate_customers_collection
          (\<lambda>result. io_pure (dict_set ''Customers'' result migration_results))
      else if collection = ''Orders'' then
        io_bind migrate_orders_collection
          (\<lambda>result. io_pure (dict_set ''Orders'' result migration_results))
      else if collection = ''Reviews'' then
        io_bind migrate_reviews_collection
          (\<lambda>result. io_pure (dict_set ''Reviews'' result migration_results))
      else io_pure migration_results)"

text \<open>\<^verbatim>\<open>migration_results[collection]['duration_seconds'] = collection_duration\<close>\<close>

definition record_duration :: "string \<Rightarrow> int \<Rightarrow> pydict \<Rightarrow> pydict io" where
  "record_duration collection collection_duration migration_results =
     (case dict_get collection migration_results of
        None \<Rightarrow> io_raise (KeyError collection)
      | Some (PDict result) \<Rightarrow>
          io_pure (dict_set collection
                     (PDict (dict_set ''duration_seconds'' (PSeconds collection_duration) result))
                     migration_results)
      | Some v \<Rightarrow> io_raise (TypeError ''object does not support item assignment''))"

fun migrate_loop :: "string list \<Rightarrow> pydict \<Rightarrow> pydict io" where
  "migrate_loop [] migration_results = io_pure migration_results"
| "migrate_loop (collection # rest) migration_results =
     io_bind datetime_now (\<lambda>collection_start_time.
     io_bind (dispatch collection migration_results) (\<lambda>results1.
     io_bind datetime_now (\<lambda>now.
     io_bind (record_duration collection (now - collection_start_time) results1) (\<lambda>results2.
     migrate_loop rest results2))))"

definition index_stage :: "bool \<Rightarrow> pydict \<Rightarrow> pydict io" where
  "index_stage create_indexes_flag migration_results =
     (if create_indexes_flag then
        io_bind datetime_now (\<lambda>index_start_time.
        io_bind create_indexes (\<lambda>_.
        io_bind datetime_now (\<lambda>now.
        io_pure (dict_set ''index_creation_duration'' (PSeconds (now - index_start_time))
                   (dict_set ''indexes_created'' (PBool True) migration_results)))))
      else io_pure migration_results)"

definition validation_stage :: "bool \<Rightarrow> pydict \<Rightarrow> pydict io" where
  "validation_stage validate_flag migration_results =
     (if validate_flag then
        io_bind datetime_now (\<lambda>validation_start_time.
        io_bind validate_migration (\<lambda>validation_results.
        io_bind datetime_now (\<lambda>now.
        io_pure (dict_set ''validation_duration'' (PSeconds (now - validation_start_time))
                   (dict_set ''validation'' validation_results migration_results)))))
      else io_pure migration_results)"

definition success_response :: "lambda_context \<Rightarrow> pydict \<Rightarrow> int \<Rightarrow> response" where
  "success_response ctx migration_results now =
     \<lparr>statusCode = 200,
      headers = [(''Content-Type'', PStr ''application/json''),
                 (''Access-Control-Allow-Origin'', PStr ''*'')],
      body = [(''success'', PBool True),
              (''message'', PStr success_message),
              (''results'', PDict migration_results),
              (''request_id'', PStr (aws_request_id ctx)),
              (''timestamp'', PDateTime now)]\<rparr>"

definition error_response :: "lambda_context \<Rightarrow> exn \<Rightarrow> int \<Rightarrow> response" where
  "error_response ctx e now =
     \<lparr>statusCode = 500,
      headers = [(''Content-Type'', PStr ''application/json'')],
      body = [(''success'', PBool False),
              (''error'', PStr (exn_str e)),
              (''error_type'', PStr (exn_name e)),
              (''request_id'', PStr (aws_request_id ctx)),
              (''timestamp'', PDateTime now)]\<rparr>"

text \<open>
  Lines 72 to 155, everything of the \<^verbatim>\<open>try\<close> block after the three connection
  objects are bound.
\<close>

definition handler_tail :: "event \<Rightarrow> lambda_context \<Rightarrow> response io" where
  "handler_tail ev ctx =
     io_bind (\<lambda>s. mongo_get_database
                (Some (case environ s ''MONGODB_DATABASE'' of None \<Rightarrow> ''shopping_db''
                       | Some v \<Rightarrow> v)) s) (\<lambda>_.
     let collections_to_migrate =
           (case ev_collections ev of
              None \<Rightarrow> [''Products'', ''Customers'', ''Orders'', ''Reviews'']
            | Some cs \<Rightarrow> cs);
         create_indexes_flag = (case ev_create_indexes ev of None \<Rightarrow> True | Some b \<Rightarrow> b);
         validate_flag = (case ev_validate ev of None \<Rightarrow> True | Some b \<Rightarrow> b) in
     io_bind datetime_now (\<lambda>total_start_time.
     io_bind (migrate_loop collections_to_migrate []) (\<lambda>results1.
     io_bind (index_stage create_indexes_flag results1) (\<lambda>results2.
     io_bind (validation_stage validate_flag results2) (\<lambda>results3.
     io_bind datetime_now (\<lambda>now.
     let migration_results =
           dict_set ''total_duration_seconds'' (PSeconds (now - total_start_time)) results3 in
     io_bind cursor_close (\<lambda>_.
     io_bind conn_close (\<lambda>_.
     io_bind client_close (\<lambda>_.
     io_bind datetime_now (\<lambda>stamp.
     io_pure (success_response ctx migration_results stamp)))))))))))"

text \<open>
  Lines 157 to 186, the \<^verbatim>\<open>except\<close> block. \<open>bound\<close> lists the connection
  variables that had been assigned when the exception was raised, which is what
  \<^verbatim>\<open>'mysql_cursor' in locals()\<close> and its two siblings test. The three closes stand
  in a \<^verbatim>\<open>try\<close> of their own whose handler is \<^verbatim>\<open>pass\<close>.
\<close>

definition cleanup :: "string list \<Rightarrow> unit io" where
  "cleanup bound =
     io_bind (if ''mysql_cursor'' \<in> set bound then cursor_close else io_pure ()) (\<lambda>_.
     io_bind (if ''mysql_conn'' \<in> set bound then conn_close else io_pure ()) (\<lambda>_.
     (if ''mongo_client'' \<in> set bound then client_close else io_pure ())))"

definition except_block :: "lambda_context \<Rightarrow> exn \<Rightarrow> string list \<Rightarrow> state \<Rightarrow> response \<times> state" where
  "except_block ctx e bound s =
     (let s1 = snd (logger ERROR (migration_error_prefix @ exn_str e) s);
          s2 = snd (logger ERROR (error_type_prefix @ exn_name e) s1);
          s3 = snd (cleanup bound s2)
      in (error_response ctx e (clock s3 (ticks s3)), s3\<lparr>ticks := Suc (ticks s3)\<rparr>))"

definition lambda_handler :: "event \<Rightarrow> lambda_context \<Rightarrow> state \<Rightarrow> response \<times> state" where
  "lambda_handler ev ctx s =
     (case check_environment s of
        (Inl e, s1) \<Rightarrow> except_block ctx e [] s1
      | (Inr u1, s1) \<Rightarrow>
     (case mysql_connect s1 of
        (Inl e, s2) \<Rightarrow> except_block ctx e [] s2
      | (Inr u2, s2) \<Rightarrow>
     (case mysql_cursor s2 of
        (Inl e, s3) \<Rightarrow> except_block ctx e [''mysql_conn''] s3
      | (Inr u3, s3) \<Rightarrow>
     (case mongo_client s3 of
        (Inl e, s4) \<Rightarrow> except_block ctx e [''mysql_conn'', ''mysql_cursor''] s4
      | (Inr u4, s4) \<Rightarrow>
     (case handler_tail ev ctx s4 of
        (Inl e, s5) \<Rightarrow>
          except_block ctx e [''mysql_conn'', ''mysql_cursor'', ''mongo_client''] s5
      | (Inr r, s5) \<Rightarrow> (r, s5))))))"

section \<open>The standalone script (MySQL\_to\_MongoDB.py)\<close>

text \<open>
  \<^verbatim>\<open>connect_to_mysql\<close> reads the four variables and connects; nothing is checked
  first. \<^verbatim>\<open>connect_to_mongodb\<close> makes the client and selects the database named by
  \<^verbatim>\<open>MONGODB_DATABASE\<close>, which has no default here.
\<close>

definition connect_to_mysql :: "unit io" where
  "connect_to_mysql = mysql_connect"

definition connect_to_mongodb :: "unit io" where
  "connect_to_mongodb =
     io_bind mongo_client (\<lambda>_. (\<lambda>s. mongo_get_database (environ s ''MONGODB_DATABASE'') s))"

definition main_steps :: "unit io" where
  "main_steps =
     io_bind migrate_Products_collection (\<lambda>_.
     io_bind migrate_Customers_collection (\<lambda>_.
     io_bind migrate_Orders_collection (\<lambda>_.
     io_bind migrate_Reviews_collection (\<lambda>_.
     io_bind create_indexes_standalone (\<lambda>_.
     validate_migration_standalone)))))"

text \<open>
  \<^verbatim>\<open>main\<close>: the three connection calls stand before the \<^verbatim>\<open>try\<close>; its
  \<^verbatim>\<open>except\<close> prints the exception, and its \<^verbatim>\<open>finally\<close> closes the cursor and
  the MySQL connection. The MongoDB client is not closed.
\<close>

definition main :: "unit io" where
  "main =
     io_bind connect_to_mysql (\<lambda>_.
     io_bind mysql_cursor (\<lambda>_.
     io_bind connect_to_mongodb (\<lambda>_.
     io_bind (\<lambda>s. case main_steps s of
                (Inl e, s') \<Rightarrow> print_line (migration_error_prefix @ exn_str e) s'
              | (Inr u, s') \<Rightarrow> (Inr (), s')) (\<lambda>_.
     io_bind cursor_close (\<lambda>_.
     conn_close)))))"

section \<open>Reading the results\<close>

text \<open>A field of a document, read the way \<^verbatim>\<open>doc.get(key)\<close> reads it.\<close>

definition doc_field :: "string \<Rightarrow> pyval \<Rightarrow> pyval option" where
  "doc_field k d = (case d of PDict f \<Rightarrow> dict_get k f | _ \<Rightarrow> None)"

section \<open>Notions used in the statements\<close>

text \<open>
  A state in which no call other than an index declaration is scheduled to raise, and
  the relation between a state and a later one that differs from it only by more calls
  in the trace and more readings of the clock.
\<close>

fun is_index_call :: "call \<Rightarrow> bool" where
  "is_index_call (CreateIndex c keys) = True"
| "is_index_call c = False"

definition index_faults_only :: "state \<Rightarrow> bool" where
  "index_faults_only s = (\<forall>n c. faults s n c \<noteq> None \<longrightarrow> is_index_call c)"

definition advanced :: "state \<Rightarrow> state \<Rightarrow> bool" where
  "advanced s s' = (\<exists>tr tk. s' = s\<lparr>trace := trace s @ tr, ticks := tk\<rparr>)"

text \<open>A text that holds no single quote and no backslash.\<close>

definition plain :: "string \<Rightarrow> bool" where
  "plain t = (CHR 0x27 \<notin> set t \<and> CHR 0x5C \<notin> set t)"

text \<open>
  What the loop over the lines of order \<open>n\<close> builds when no call raises: one item
  document for each row of the line query, with the review count of its line.
\<close>

definition order_items_docs :: "database \<Rightarrow> int \<Rightarrow> pyval list" where
  "order_items_docs db n =
     map (\<lambda>item. item_doc item (count_reviews db (fst item))) (select_order_items db n)"

text \<open>
  A step keeps a component of the state when the component is the same after the step
  as before it, whatever the step returns. A component is blind when it does not depend
  on the trace, the clock readings made, the collections, the indexes or the output:
  the fault schedule, the source database, the environment and the three connection
  flags are.
\<close>

definition io_keeps :: "(state \<Rightarrow> 'x) \<Rightarrow> 'a io \<Rightarrow> bool" where
  "io_keeps g m = (\<forall>s. g (snd (m s)) = g s)"



text \<open>
  The names the handler's loop knows, and for each collection the number of documents
  its loader assembles: the rows of its main query.
\<close>

fun coll_name :: "coll \<Rightarrow> string" where
  "coll_name Products = ''Products''"
| "coll_name Customers = ''Customers''"
| "coll_name Orders = ''Orders''"
| "coll_name Reviews = ''Reviews''"

fun assembled_count :: "database \<Rightarrow> coll \<Rightarrow> nat" where
  "assembled_count db Products = length (tbl_Products db)"
| "assembled_count db Customers = length (tbl_Customers db)"
| "assembled_count db Orders = length (tbl_Orders db)"
| "assembled_count db Reviews = length (select_reviews db)"


section \<open>Example states\<close>

definition empty_db :: database where
  "empty_db = \<lparr>tbl_Customers = [], tbl_Products = [], tbl_Carts = [], tbl_Orders = [],
               tbl_Ord_items = [], tbl_Prod_evals = [],
               other_statements = (\<lambda>text. Inr [])\<rparr>"

text \<open>Nothing configured, nothing stored, no call scheduled to raise.\<close>

definition blank_state :: state where
  "blank_state =
     \<lparr>environ = (\<lambda>v. None), mysql = empty_db, mongo = (\<lambda>c. []), indexes = [],
      faults = (\<lambda>n c. None), trace = [], clock = (\<lambda>n. int n), ticks = 0,
      conn_open = False, cursor_open = False, client_open = False, logged = [], printed = []\<rparr>"

definition default_event :: event where
  "default_event = \<lparr>ev_collections = None, ev_create_indexes = None, ev_validate = None\<rparr>"

definition some_context :: lambda_context where
  "some_context = \<lparr>aws_request_id = ''req-1''\<rparr>"

text \<open>
  A shop with two customers: three cart rows, stored out of order, two of them Ann's;
  one product; one order of two lines; one review, of the first line.
\<close>

definition shop_db :: database where
  "shop_db =
     \<lparr>tbl_Customers =
        [\<lparr>cust_id = ''ann@example.com'', passwd = ''pw1'', cust_name = ''Ann'',
          m_phone = ''010-0000-0001'', agree_terms = ''Y'', agree_privacy = ''Y'',
          agree_marketing = ''N''\<rparr>,
         \<lparr>cust_id = ''bob@example.com'', passwd = ''pw2'', cust_name = ''Bob'',
          m_phone = ''010-0000-0002'', agree_terms = ''Y'', agree_privacy = ''Y'',
          agree_marketing = ''Y''\<rparr>],
      tbl_Products =
        [\<lparr>prod_cd = ''P1'', prod_name = ''shirt'', price = Decimal 1999 2, prod_type = ''top'',
          material = ''cotton'', prod_img = ''p1.jpg'', prod_intro = None\<rparr>],
      tbl_Carts =
        [\<lparr>cart_seq_no = 3, cart_cust_id = ''ann@example.com'', cart_prod_cd = ''P1'',
          cart_prod_size = ''M'', cart_ord_qty = 1, cart_ord_yn = ''N''\<rparr>,
         \<lparr>cart_seq_no = 2, cart_cust_id = ''bob@example.com'', cart_prod_cd = ''P1'',
          cart_prod_size = ''L'', cart_ord_qty = 2, cart_ord_yn = ''N''\<rparr>,
         \<lparr>cart_seq_no = 1, cart_cust_id = ''ann@example.com'', cart_prod_cd = ''P1'',
          cart_prod_size = ''S'', cart_ord_qty = 1, cart_ord_yn = ''Y''\<rparr>],
      tbl_Orders =
        [\<lparr>ord_no = 7, ord_date = Some (SqlDate 20000), ord_amount = Some (Decimal 1999 2),
          ord_cust_id = ''ann@example.com''\<rparr>],
      tbl_Ord_items =
        [\<lparr>ord_item_no = 70, oi_ord_no = 7, oi_cart_seq_no = 1, oi_prod_cd = ''P1'',
          oi_prod_size = ''S'', oi_ord_qty = 1\<rparr>,
         \<lparr>ord_item_no = 71, oi_ord_no = 7, oi_cart_seq_no = 3, oi_prod_cd = ''P1'',
          oi_prod_size = ''M'', oi_ord_qty = 1\<rparr>],
      tbl_Prod_evals =
        [\<lparr>eval_seq_no = 1, eval_score = 5, eval_comment = None, pe_cust_id = ''ann@example.com'',
          pe_prod_cd = ''P1'', pe_ord_item_no = 70\<rparr>],
      other_statements = (\<lambda>text. Inr [])\<rparr>"

definition shop_state :: state where
  "shop_state = blank_state\<lparr>mysql := shop_db\<rparr>"

text \<open>The same shop, with the second order line naming a product code no product row has.\<close>

definition dangling_state :: state where
  "dangling_state =
     blank_state\<lparr>mysql := shop_db\<lparr>tbl_Ord_items :=
        [\<lparr>ord_item_no = 70, oi_ord_no = 7, oi_cart_seq_no = 1, oi_prod_cd = ''P1'',
          oi_prod_size = ''S'', oi_ord_qty = 1\<rparr>,
         \<lparr>ord_item_no = 71, oi_ord_no = 7, oi_cart_seq_no = 3, oi_prod_cd = ''P9'',
          oi_prod_size = ''M'', oi_ord_qty = 1\<rparr>]\<rparr>\<rparr>"

text \<open>
  The shop with a third customer, who has no cart row and whose identifier is
  \<^verbatim>\<open>x' OR '1'='1\<close>.
\<close>

definition quoted_id :: string where
  "quoted_id = ''x'' @ [CHR 0x27] @ '' OR '' @ [CHR 0x27] @ ''1'' @ [CHR 0x27] @ ''='' @ [CHR 0x27] @ ''1''"

definition quoted_state :: state where
  "quoted_state =
     blank_state\<lparr>mysql := shop_db\<lparr>tbl_Customers := tbl_Customers shop_db @
        [\<lparr>cust_id = quoted_id, passwd = ''pw3'', cust_name = ''Eve'',
          m_phone = ''010-0000-0003'', agree_terms = ''Y'', agree_privacy = ''Y'',
          agree_marketing = ''N''\<rparr>]\<rparr>\<rparr>"

text \<open>The shop with every variable of the configuration set.\<close>

definition shop_environ :: "string \<Rightarrow> string option" where
  "shop_environ =
     map_of [(''MYSQL_HOST'', ''db.example.com''), (''MYSQL_USER'', ''shop''),
             (''MYSQL_PASSWORD'', ''secret''), (''MYSQL_DATABASE'', ''shopping_db''),
             (''MONGODB_URI'', ''mongodb://docs.example.com:27017''),
             (''MONGODB_DATABASE'', ''shopping_db'')]"

definition configured_shop :: state where
  "configured_shop = shop_state\<lparr>environ := shop_environ\<rparr>"

text \<open>The configured shop, where the account may not declare indexes.\<close>

definition index_denied :: state where
  "index_denied =
     configured_shop\<lparr>faults := (\<lambda>n c. if is_index_call c
        then Some (LibraryError ''OperationFailure'' ''not authorized'') else None)\<rparr>"

text \<open>The configured shop, where the account may not count the customer documents.\<close>

definition count_denied :: state where
  "count_denied =
     configured_shop\<lparr>faults := (\<lambda>n c. if c = CountDocuments Customers
        then Some (LibraryError ''OperationFailure'' ''not authorized'') else None)\<rparr>"


text \<open>No variable is set and the MySQL server cannot be reached.\<close>

definition unreachable_mysql :: state where
  "unreachable_mysql =
     blank_state\<lparr>faults := (\<lambda>n c. if c = MysqlConnect
        then Some (LibraryError ''InterfaceError'' ''cannot connect to MySQL server'') else None)\<rparr>"

section \<open>Properties of the documents\<close>







section \<open>Missing configuration\<close>

lemma missing_vars_nonempty:
  "v \<in> set required_vars \<Longrightarrow> \<not> str_truthy (environ s v) \<Longrightarrow> missing_vars s \<noteq> []"
  by (auto simp: missing_vars_def filter_empty_conv)

lemma except_block_unbound:
  "except_block ctx e [] s =
     (error_response ctx e (clock s (ticks s)),
      s\<lparr>logged := logged s @ [(ERROR, migration_error_prefix @ exn_str e),
                               (ERROR, error_type_prefix @ exn_name e)],
        ticks := Suc (ticks s)\<rparr>)"
  by (simp add: except_block_def logger_def cleanup_def io_bind_def io_pure_def Let_def)

lemma handler_missing_config:
  assumes "missing_vars s \<noteq> []"
  shows "lambda_handler ev ctx s =
           except_block ctx (ValueError (missing_env_prefix @ py_str_list (missing_vars s))) [] s"
  using assms by (simp add: lambda_handler_def check_environment_def io_raise_def)

text \<open>
  C8, as amended. In the serverless handler, a run started with one of
  \<^verbatim>\<open>MYSQL_HOST\<close>, \<^verbatim>\<open>MYSQL_USER\<close>, \<^verbatim>\<open>MYSQL_PASSWORD\<close>,
  \<^verbatim>\<open>MONGODB_URI\<close> unset or empty makes no call to either store and opens no
  connection: it returns the status 500 response whose \<^verbatim>\<open>error_type\<close> is
  \<^verbatim>\<open>ValueError\<close> and whose message lists the missing variables.
\<close>

theorem missing_configuration_fails_fast:
  assumes "v \<in> set required_vars" and "environ s v = None \<or> environ s v = Some []"
  shows "trace (snd (lambda_handler ev ctx s)) = trace s
     \<and> conn_open (snd (lambda_handler ev ctx s)) = conn_open s
     \<and> cursor_open (snd (lambda_handler ev ctx s)) = cursor_open s
     \<and> client_open (snd (lambda_handler ev ctx s)) = client_open s
     \<and> mongo (snd (lambda_handler ev ctx s)) = mongo s
     \<and> statusCode (fst (lambda_handler ev ctx s)) = 500
     \<and> dict_get ''success'' (body (fst (lambda_handler ev ctx s))) = Some (PBool False)
     \<and> dict_get ''error_type'' (body (fst (lambda_handler ev ctx s))) = Some (PStr ''ValueError'')
     \<and> dict_get ''error'' (body (fst (lambda_handler ev ctx s))) =
         Some (PStr (missing_env_prefix @ py_str_list (missing_vars s)))
     \<and> v \<in> set (missing_vars s)"
proof -
  have nt: "\<not> str_truthy (environ s v)"
    using assms(2) by auto
  have mv: "missing_vars s \<noteq> []"
    using assms(1) nt by (rule missing_vars_nonempty)
  have "v \<in> set (missing_vars s)"
    using assms(1) nt by (simp add: missing_vars_def)
  then show ?thesis
    by (simp add: handler_missing_config [OF mv] except_block_unbound error_response_def)
qed

theorem missing_configuration_fails_fast_witness:
  "trace (snd (lambda_handler default_event some_context blank_state)) = []
   \<and> statusCode (fst (lambda_handler default_event some_context blank_state)) = 500
   \<and> dict_get ''error_type'' (body (fst (lambda_handler default_event some_context blank_state)))
       = Some (PStr ''ValueError'')
   \<and> ''MYSQL_HOST'' \<in> set (missing_vars blank_state)"
  using missing_configuration_fails_fast
    [of "''MYSQL_HOST''" blank_state default_event some_context]
  by (simp add: required_vars_def blank_state_def)

text \<open>
  The standalone script checks nothing before it connects: with no variable set, its
  first act is the call that opens the MySQL connection, and what the run reports is
  that call's own exception.
\<close>

theorem standalone_connects_without_configuration:
  "environ unreachable_mysql ''MYSQL_HOST'' = None
   \<and> main unreachable_mysql =
       (Inl (LibraryError ''InterfaceError'' ''cannot connect to MySQL server''),
        unreachable_mysql\<lparr>trace := [MysqlConnect]\<rparr>)"
  by (simp add: unreachable_mysql_def blank_state_def main_def connect_to_mysql_def
      mysql_connect_def extcall_def io_bind_def Let_def)

section \<open>Running the steps\<close>

lemma io_bind_apply:
  "io_bind m f s = (case m s of (Inl e, s') \<Rightarrow> (Inl e, s') | (Inr x, s') \<Rightarrow> f x s')"
  by (simp add: io_bind_def)

lemma io_bind_Inr: "m s = (Inr x, s') \<Longrightarrow> io_bind m f s = f x s'"
  by (simp add: io_bind_def)

lemma io_bind_Inl: "m s = (Inl e, s') \<Longrightarrow> io_bind m f s = (Inl e, s')"
  by (simp add: io_bind_def)

lemma io_pure_apply: "io_pure x s = (Inr x, s)"
  by (simp add: io_pure_def)

lemma io_raise_apply: "io_raise e s = (Inl e, s)"
  by (simp add: io_raise_def)

lemma io_lift_apply: "io_lift r s = (r, s)"
  by (simp add: io_lift_def)

lemma datetime_now_apply: "datetime_now s = (Inr (clock s (ticks s)), s\<lparr>ticks := Suc (ticks s)\<rparr>)"
  by (simp add: datetime_now_def)

lemma advanced_refl: "advanced s s"
  unfolding advanced_def by (rule exI [of _ "[]"], rule exI [of _ "ticks s"]) simp

lemma advanced_trans: "advanced s s1 \<Longrightarrow> advanced s1 s2 \<Longrightarrow> advanced s s2"
proof -
  assume "advanced s s1" and "advanced s1 s2"
  then obtain tr tk tr' tk' where
    a: "s1 = s\<lparr>trace := trace s @ tr, ticks := tk\<rparr>" and
    b: "s2 = s1\<lparr>trace := trace s1 @ tr', ticks := tk'\<rparr>"
    unfolding advanced_def by blast
  have "s2 = s\<lparr>trace := trace s @ (tr @ tr'), ticks := tk'\<rparr>"
    by (simp add: a b)
  then show ?thesis
    unfolding advanced_def by blast
qed

lemma advanced_fields:
  assumes "advanced s s'"
  shows "faults s' = faults s" "mysql s' = mysql s" "mongo s' = mongo s" "environ s' = environ s"
    "conn_open s' = conn_open s" "cursor_open s' = cursor_open s" "client_open s' = client_open s"
    "logged s' = logged s" "printed s' = printed s" "indexes s' = indexes s" "clock s' = clock s"
  using assms unfolding advanced_def by auto

lemma advanced_trace: "advanced s s' \<Longrightarrow> \<exists>tr. trace s' = trace s @ tr"
  unfolding advanced_def by auto

lemma advanced_ok: "advanced s s' \<Longrightarrow> index_faults_only s \<Longrightarrow> index_faults_only s'"
  by (simp add: index_faults_only_def advanced_fields)

lemma extcall_ok:
  "index_faults_only s \<Longrightarrow> \<not> is_index_call c \<Longrightarrow> extcall c eff s = eff (s\<lparr>trace := trace s @ [c]\<rparr>)"
  by (cases "faults s (length (trace s)) c") (auto simp: extcall_def index_faults_only_def Let_def)

lemma fetch_ok:
  "index_faults_only s \<Longrightarrow>
     fetch_all_data q rows s = (Inr (rows (mysql s)), s\<lparr>trace := trace s @ [Execute q]\<rparr>)"
  by (simp add: fetch_all_data_def extcall_ok)

lemma advanced_call: "advanced s (s\<lparr>trace := trace s @ [c]\<rparr>)"
  unfolding advanced_def by (rule exI [of _ "[c]"], rule exI [of _ "ticks s"]) simp

lemma advanced_tick: "advanced s (s\<lparr>ticks := k\<rparr>)"
  unfolding advanced_def by (rule exI [of _ "[]"], rule exI [of _ k]) simp

lemma head_lexed:
  "foldl lex_step ([], Outside) cart_query_head = (cart_select_tokens, In_lit [])"
  by (simp add: cart_query_head_def indent_def cart_select_tokens_def outside_def is_space_def
      is_word_def)

lemma plain_lexed:
  "plain cid \<Longrightarrow> foldl lex_step (ts, In_lit v) cid = (ts, In_lit (v @ cid))"
  unfolding plain_def by (induction cid arbitrary: v) auto

lemma tail_lexed:
  "foldl lex_step (ts, In_lit v) cart_query_tail
     = (ts @ [Lit v, Word ''ORDER'', Word ''BY'', Word ''cart_seq_no''], Outside)"
  by (simp add: cart_query_tail_def indent_def outside_def is_space_def is_word_def)

lemma read_plain:
  assumes "plain cid"
  shows "read_cart_query (cart_query cid) = Equal_to cid"
proof -
  have "sql_tokens (cart_query cid)
          = Tokens (cart_select_tokens @ [Lit cid, Word ''ORDER'', Word ''BY'', Word ''cart_seq_no''])"
    by (simp add: sql_tokens_def cart_query_def head_lexed plain_lexed [OF assms] tail_lexed)
  then show ?thesis
    by (simp add: read_cart_query_def upper_def)
qed

lemma run_cart_query_plain:
  "plain cid \<Longrightarrow> run_cart_query db (cart_query cid) = Inr (select_cart db cid)"
  by (simp add: run_cart_query_def read_plain)

lemma execute_cart_query_ok:
  assumes "index_faults_only s"
  shows "execute_cart_query text s
           = (run_cart_query (mysql s) text, s\<lparr>trace := trace s @ [Execute (Sql text)]\<rparr>)"
  using assms by (simp add: execute_cart_query_def extcall_ok)

lemma cart_loop:
  "\<exists>docs s'. io_mapM (\<lambda>item. io_bind datetime_now (\<lambda>now. io_pure (cart_item_doc item now))) items s
            = (Inr docs, s')
          \<and> advanced s s'
          \<and> list_all2 (\<lambda>d item. \<exists>now. d = cart_item_doc item now) docs items"
proof (induction items arbitrary: s)
  case Nil
  show ?case by (simp add: io_pure_apply advanced_refl)
next
  case (Cons item items)
  let ?s1 = "s\<lparr>ticks := Suc (ticks s)\<rparr>"
  obtain docs s' where
    step: "io_mapM (\<lambda>item. io_bind datetime_now (\<lambda>now. io_pure (cart_item_doc item now))) items ?s1
           = (Inr docs, s')"
    and adv: "advanced ?s1 s'"
    and all: "list_all2 (\<lambda>d item. \<exists>now. d = cart_item_doc item now) docs items"
    using Cons.IH [of ?s1] by blast
  have "io_mapM (\<lambda>item. io_bind datetime_now (\<lambda>now. io_pure (cart_item_doc item now))) (item # items) s
          = (Inr (cart_item_doc item (clock s (ticks s)) # docs), s')"
    by (simp add: io_bind_apply datetime_now_apply io_pure_apply step)
  moreover have "advanced s s'"
    by (rule advanced_trans [OF advanced_tick adv])
  moreover have "list_all2 (\<lambda>d item. \<exists>now. d = cart_item_doc item now)
                   (cart_item_doc item (clock s (ticks s)) # docs) (item # items)"
    using all by auto
  ultimately show ?case by blast
qed

lemma customer_step_ok:
  assumes "index_faults_only s"
    and "run_cart_query (mysql s) (cart_query (cust_id c)) = Inr items"
  shows "\<exists>now cart s'. customer_step c s = (Inr (customer_doc c now cart, length items), s')
          \<and> advanced s s'
          \<and> list_all2 (\<lambda>d item. \<exists>now. d = cart_item_doc item now) cart items"
proof -
  let ?q = "Execute (Sql (cart_query (cust_id c)))"
  let ?s1 = "s\<lparr>trace := trace s @ [?q]\<rparr>"
  let ?s2 = "s\<lparr>trace := trace s @ [?q], ticks := Suc (ticks s)\<rparr>"
  obtain cart s' where
    loop: "io_mapM (\<lambda>item. io_bind datetime_now (\<lambda>now. io_pure (cart_item_doc item now))) items ?s2
             = (Inr cart, s')"
    and adv: "advanced ?s2 s'"
    and all: "list_all2 (\<lambda>d item. \<exists>now. d = cart_item_doc item now) cart items"
    using cart_loop [of items ?s2] by blast
  have f: "execute_cart_query (cart_query (cust_id c)) s = (Inr items, ?s1)"
    by (simp add: execute_cart_query_ok [OF assms(1)] assms(2))
  have "customer_step c s = (Inr (customer_doc c (clock s (ticks s)) cart, length items), s')"
    unfolding customer_step_def
    by (simp add: io_bind_apply f datetime_now_apply loop io_pure_apply)
  moreover have "advanced s ?s2"
    by (rule advanced_trans [OF advanced_call [of s ?q]])
       (simp add: advanced_tick)
  ultimately show ?thesis using all advanced_trans [OF _ adv] by blast
qed

lemma customers_loop:
  assumes "index_faults_only s"
    and "\<forall>c \<in> set cs. run_cart_query (mysql s) (cart_query (cust_id c)) = Inr (rows c)"
  shows "\<exists>steps s'. io_mapM customer_step cs s = (Inr steps, s') \<and> advanced s s'
          \<and> list_all2 (\<lambda>st c. \<exists>now cart. st = (customer_doc c now cart, length (rows c))
                \<and> list_all2 (\<lambda>d item. \<exists>now. d = cart_item_doc item now) cart (rows c)) steps cs"
  using assms
proof (induction cs arbitrary: s)
  case Nil
  show ?case by (simp add: io_pure_apply advanced_refl)
next
  case (Cons c cs)
  have here: "run_cart_query (mysql s) (cart_query (cust_id c)) = Inr (rows c)"
    using Cons.prems(2) by simp
  obtain now cart s1 where
    st: "customer_step c s = (Inr (customer_doc c now cart, length (rows c)), s1)"
    and adv1: "advanced s s1"
    and all1: "list_all2 (\<lambda>d item. \<exists>now. d = cart_item_doc item now) cart (rows c)"
    using customer_step_ok [OF Cons.prems(1) here] by blast
  have ok1: "index_faults_only s1"
    using adv1 Cons.prems(1) by (rule advanced_ok)
  have db1: "mysql s1 = mysql s"
    using adv1 by (rule advanced_fields)
  have later: "\<forall>c \<in> set cs. run_cart_query (mysql s1) (cart_query (cust_id c)) = Inr (rows c)"
    using Cons.prems(2) by (simp add: db1)
  obtain steps s' where
    rest: "io_mapM customer_step cs s1 = (Inr steps, s')"
    and adv2: "advanced s1 s'"
    and all2: "list_all2 (\<lambda>st c. \<exists>now cart. st = (customer_doc c now cart, length (rows c))
                \<and> list_all2 (\<lambda>d item. \<exists>now. d = cart_item_doc item now) cart (rows c)) steps cs"
    using Cons.IH [OF ok1 later] by blast
  have "io_mapM customer_step (c # cs) s
          = (Inr ((customer_doc c now cart, length (rows c)) # steps), s')"
    by (simp add: io_bind_apply st rest io_pure_apply)
  moreover have "advanced s s'"
    using adv1 adv2 by (rule advanced_trans)
  moreover have "list_all2 (\<lambda>st c. \<exists>now cart. st = (customer_doc c now cart, length (rows c))
                \<and> list_all2 (\<lambda>d item. \<exists>now. d = cart_item_doc item now) cart (rows c))
             ((customer_doc c now cart, length (rows c)) # steps) (c # cs)"
    using all1 all2 by auto
  ultimately show ?case by blast
qed

lemma insert_docs_fresh:
  assumes "distinct (map doc_id ds)" and "set (map doc_id ds) \<inter> set (map doc_id stored) = {}"
  shows "insert_docs ds stored = (None, stored @ ds)"
  using assms
proof (induction ds arbitrary: stored)
  case Nil
  show ?case by simp
next
  case (Cons d ds)
  have "doc_id d \<notin> set (map doc_id stored)"
    using Cons.prems(2) by auto
  moreover have "insert_docs ds (stored @ [d]) = (None, (stored @ [d]) @ ds)"
    using Cons.prems by (intro Cons.IH) auto
  ultimately show ?case by simp
qed

lemma insert_docs_no_ids:
  assumes "list_all (\<lambda>d. doc_id d = None) ds"
  shows "insert_docs ds stored = (None, stored @ ds)"
  using assms by (induction ds arbitrary: stored) simp_all

lemma drop_ok:
  "index_faults_only s \<Longrightarrow>
     mongo_drop c s = (Inr (), s\<lparr>trace := trace s @ [Drop c], mongo := (mongo s)(c := [])\<rparr>)"
  by (simp add: mongo_drop_def extcall_ok)

lemma insert_many_ok:
  assumes "index_faults_only s" and "insert_docs docs (mongo s c) = (None, stored)"
  shows "mongo_insert_many c docs s
           = (Inr (), s\<lparr>trace := trace s @ [InsertMany c docs], mongo := (mongo s)(c := stored)\<rparr>)"
  using assms by (simp add: mongo_insert_many_def extcall_ok)

section \<open>The customer assembler\<close>

lemma map_insort_key: "map f (insort_key f x xs) = insort (f x) (map f xs)"
  by (induction xs) simp_all

lemma map_sort_key: "map f (sort_key f xs) = sort (map f xs)"
  by (induction xs) (simp_all add: map_insort_key)

lemma select_cart_keys:
  "map fst (select_cart db cid)
     = sort (map cart_seq_no (filter (\<lambda>r. cart_cust_id r = cid) (tbl_Carts db)))"
  by (simp add: select_cart_def comp_def map_sort_key)

lemma length_select_cart:
  "length (select_cart db cid) = length (filter (\<lambda>r. cart_cust_id r = cid) (tbl_Carts db))"
  by (simp add: select_cart_def)

lemma cart_docs_keys:
  "list_all2 (\<lambda>d item. \<exists>now. d = cart_item_doc item now) cart items \<Longrightarrow>
     map (doc_field ''cart_seq_no'') cart = map (\<lambda>item. Some (PInt (fst item))) items"
  by (induction cart items rule: list_all2_induct)
     (auto simp: cart_item_doc_def doc_field_def split: prod.splits)

lemma customer_doc_fields:
  "doc_id (customer_doc c now cart) = Some (PStr (cust_id c))"
  "doc_field ''cart'' (customer_doc c now cart) = Some (PList cart)"
  by (simp_all add: customer_doc_def doc_id_def doc_field_def)

lemma customer_steps_ids:
  "list_all2 (\<lambda>st c. \<exists>now cart. st = (customer_doc c now cart, n c) \<and> P cart c) steps cs \<Longrightarrow>
     map doc_id (map fst steps) = map (\<lambda>c. Some (PStr (cust_id c))) cs"
  by (induction steps cs rule: list_all2_induct) (auto simp: customer_doc_fields)

lemma fetch_customers_after_drop:
  assumes "index_faults_only s"
  shows "io_bind (mongo_drop c) (\<lambda>_. io_bind (fetch_all_data q rows) f) s
           = f (rows (mysql s))
               (s\<lparr>mongo := (mongo s)(c := []), trace := trace s @ [Drop c, Execute q]\<rparr>)"
proof -
  have ok: "index_faults_only (s\<lparr>trace := trace s @ [Drop c], mongo := (mongo s)(c := [])\<rparr>)"
    using assms by (simp add: index_faults_only_def)
  show ?thesis
    by (simp add: io_bind_apply drop_ok [OF assms] fetch_ok [OF ok])
qed

lemma migrate_customers_ok:
  assumes ok: "index_faults_only s" and d: "distinct (map cust_id (tbl_Customers (mysql s)))"
    and pl: "\<forall>c \<in> set (tbl_Customers (mysql s)).
               run_cart_query (mysql s) (cart_query (cust_id c)) = Inr (rows c)"
  shows "\<exists>steps r s'.
            migrate_customers_collection s = (Inr (PDict r), s')
          \<and> migrate_Customers_collection s = (Inr (), s')
          \<and> dict_get ''count'' r = Some (PInt (int (length (tbl_Customers (mysql s)))))
          \<and> advanced (s\<lparr>mongo := (mongo s)(Customers := map fst steps)\<rparr>) s'
          \<and> Drop Customers \<in> set (drop (length (trace s)) (trace s'))
          \<and> list_all2 (\<lambda>st c. \<exists>now cart. st = (customer_doc c now cart, length (rows c))
                \<and> list_all2 (\<lambda>d item. \<exists>now. d = cart_item_doc item now) cart (rows c))
               steps (tbl_Customers (mysql s))"
proof -
  let ?cs = "tbl_Customers (mysql s)"
  let ?s2 = "s\<lparr>mongo := (mongo s)(Customers := []),
               trace := trace s @ [Drop Customers, Execute SelectCustomers]\<rparr>"
  have ok2: "index_faults_only ?s2"
    using ok by (simp add: index_faults_only_def)
  obtain steps s3 where
    loop: "io_mapM customer_step ?cs ?s2 = (Inr steps, s3)"
    and adv: "advanced ?s2 s3"
    and all: "list_all2 (\<lambda>st c. \<exists>now cart. st = (customer_doc c now cart, length (rows c))
                \<and> list_all2 (\<lambda>d item. \<exists>now. d = cart_item_doc item now) cart (rows c))
               steps ?cs"
    using customers_loop [OF ok2, of ?cs rows] pl by auto
  obtain tr tk where s3: "s3 = ?s2\<lparr>trace := trace ?s2 @ tr, ticks := tk\<rparr>"
    using adv unfolding advanced_def by blast
  have ok3: "index_faults_only s3"
    using adv ok2 by (rule advanced_ok)
  have len: "length steps = length ?cs"
    using all by (rule list_all2_lengthD)
  have ids: "map doc_id (map fst steps) = map (\<lambda>c. Some (PStr (cust_id c))) ?cs"
    using all by (rule customer_steps_ids)
  have "distinct (map (\<lambda>c. Some (PStr (cust_id c))) ?cs)"
    using d by (simp add: distinct_map inj_on_def)
  then have dist: "distinct (map doc_id (map fst steps))"
    by (simp only: ids)
  have ins: "insert_docs (map fst steps) (mongo s3 Customers) = (None, map fst steps)"
    using insert_docs_fresh [OF dist, of "[]"] by (simp add: s3)
  let ?s4 = "if map fst steps \<noteq> [] then
               s3\<lparr>mongo := (mongo s3)(Customers := map fst steps),
                  trace := trace s3 @ [InsertMany Customers (map fst steps)]\<rparr> else s3"
  have put: "(if map fst steps \<noteq> [] then mongo_insert_many Customers (map fst steps)
              else io_pure ()) s3 = (Inr (), ?s4)"
    by (simp add: insert_many_ok [OF ok3 ins] io_pure_apply)
  let ?r = "[(''count'', PInt (int (length (map fst steps)))),
             (''collection_name'', PStr ''Customers''),
             (''mysql_records'', PInt (int (length ?cs))),
             (''mongodb_documents'', PInt (int (length (map fst steps)))),
             (''total_cart_items'', PInt (int (sum_list (map snd steps))))]"
  have r1: "migrate_customers_collection s = (Inr (PDict ?r), ?s4)"
    unfolding migrate_customers_collection_def fetch_customers_after_drop [OF ok]
    by (simp only: io_bind_apply loop put Let_def io_pure_apply prod.case sum.case)
  have r2: "migrate_Customers_collection s = (Inr (), ?s4)"
    unfolding migrate_Customers_collection_def fetch_customers_after_drop [OF ok]
    by (simp only: io_bind_apply loop put Let_def io_pure_apply prod.case sum.case)
  have a4: "advanced (s\<lparr>mongo := (mongo s)(Customers := map fst steps)\<rparr>) ?s4"
    unfolding advanced_def
    by (rule exI [of _ "if map fst steps \<noteq> []
          then [Drop Customers, Execute SelectCustomers] @ tr @ [InsertMany Customers (map fst steps)]
          else [Drop Customers, Execute SelectCustomers] @ tr"], rule exI [of _ tk])
       (simp add: s3)
  have t4: "Drop Customers \<in> set (drop (length (trace s)) (trace ?s4))"
    by (simp add: s3)
  have cnt: "dict_get ''count'' ?r = Some (PInt (int (length ?cs)))"
    by (simp add: len)
  show ?thesis
    by (rule exI [of _ steps], rule exI [of _ ?r], rule exI [of _ ?s4])
       (intro conjI r1 r2 cnt a4 t4 all)
qed

lemma customer_steps_docs:
  assumes "list_all2 (\<lambda>st c. \<exists>now cart. st = (customer_doc c now cart, n c)
                \<and> list_all2 (\<lambda>d item. \<exists>now. d = cart_item_doc item now) cart (rows c)) steps cs"
  shows "list_all2 (\<lambda>d c. \<exists>cart. doc_field ''cart'' d = Some (PList cart)
            \<and> length cart = length (rows c)
            \<and> map (doc_field ''cart_seq_no'') cart = map (\<lambda>n. Some (PInt n)) (map fst (rows c)))
          (map fst steps) cs"
  using assms
proof (induction steps cs rule: list_all2_induct)
  case Nil
  show ?case by simp
next
  case (Cons st steps c cs)
  from Cons.hyps(1) obtain now cart where
    st: "st = (customer_doc c now cart, n c)"
    and all: "list_all2 (\<lambda>d item. \<exists>now. d = cart_item_doc item now) cart (rows c)"
    by blast
  have len: "length cart = length (rows c)"
    using all by (rule list_all2_lengthD)
  have "map (doc_field ''cart_seq_no'') cart = map (\<lambda>item. Some (PInt (fst item))) (rows c)"
    using all by (rule cart_docs_keys)
  then have keys: "map (doc_field ''cart_seq_no'') cart
                     = map (\<lambda>n. Some (PInt n)) (map fst (rows c))"
    by (simp add: comp_def)
  have "\<exists>cart. doc_field ''cart'' (fst st) = Some (PList cart)
            \<and> length cart = length (rows c)
            \<and> map (doc_field ''cart_seq_no'') cart = map (\<lambda>n. Some (PInt n)) (map fst (rows c))"
    using len keys by (simp add: st customer_doc_fields)
  then show ?case
    using Cons.IH by simp
qed

lemma shop_state_ok: "index_faults_only shop_state"
  by (simp add: index_faults_only_def shop_state_def blank_state_def)

text \<open>
  Where no customer identifier holds a single quote or a backslash, and no call to the
  stores raises: both scripts' customer loaders return normally and leave the same state;
  the Customers collection then holds one document for each customer row, in order, with
  the customer identifier as \<^verbatim>\<open>_id\<close>; and the \<^verbatim>\<open>cart\<close> array of a
  customer's document has as many entries as the customer has cart rows, their sequence
  numbers being the sequence numbers of those rows in ascending order.
\<close>

lemma plain_customers_embed_cart:
  assumes "index_faults_only s" and "distinct (map cust_id (tbl_Customers (mysql s)))"
    and "\<forall>c \<in> set (tbl_Customers (mysql s)). plain (cust_id c)"
  shows "\<exists>r s'. migrate_customers_collection s = (Inr r, s')
     \<and> migrate_Customers_collection s = (Inr (), s')
     \<and> map doc_id (mongo s' Customers) = map (\<lambda>c. Some (PStr (cust_id c))) (tbl_Customers (mysql s))
     \<and> distinct (map doc_id (mongo s' Customers))
     \<and> list_all2 (\<lambda>d c. \<exists>cart. doc_field ''cart'' d = Some (PList cart)
            \<and> length cart = length (filter (\<lambda>r. cart_cust_id r = cust_id c) (tbl_Carts (mysql s)))
            \<and> map (doc_field ''cart_seq_no'') cart
                = map (\<lambda>n. Some (PInt n))
                    (sort (map cart_seq_no
                       (filter (\<lambda>r. cart_cust_id r = cust_id c) (tbl_Carts (mysql s))))))
          (mongo s' Customers) (tbl_Customers (mysql s))"
proof -
  let ?rows = "\<lambda>c. select_cart (mysql s) (cust_id c)"
  have rows: "\<forall>c \<in> set (tbl_Customers (mysql s)).
                run_cart_query (mysql s) (cart_query (cust_id c)) = Inr (?rows c)"
    using assms(3) by (simp add: run_cart_query_plain)
  obtain steps r s' where
    r1: "migrate_customers_collection s = (Inr (PDict r), s')"
    and r2: "migrate_Customers_collection s = (Inr (), s')"
    and adv: "advanced (s\<lparr>mongo := (mongo s)(Customers := map fst steps)\<rparr>) s'"
    and all: "list_all2 (\<lambda>st c. \<exists>now cart. st = (customer_doc c now cart, length (?rows c))
                \<and> list_all2 (\<lambda>d item. \<exists>now. d = cart_item_doc item now) cart (?rows c))
               steps (tbl_Customers (mysql s))"
    using migrate_customers_ok [OF assms(1,2) rows] by blast
  have m: "mongo s' Customers = map fst steps"
    using advanced_fields(3) [OF adv] by simp
  have ids: "map doc_id (mongo s' Customers) = map (\<lambda>c. Some (PStr (cust_id c))) (tbl_Customers (mysql s))"
    unfolding m using all by (rule customer_steps_ids)
  have "distinct (map (\<lambda>c. Some (PStr (cust_id c))) (tbl_Customers (mysql s)))"
    using assms(2) by (simp add: distinct_map inj_on_def)
  then have dist: "distinct (map doc_id (mongo s' Customers))"
    by (simp only: ids)
  have "list_all2 (\<lambda>d c. \<exists>cart. doc_field ''cart'' d = Some (PList cart)
            \<and> length cart = length (?rows c)
            \<and> map (doc_field ''cart_seq_no'') cart = map (\<lambda>n. Some (PInt n)) (map fst (?rows c)))
          (mongo s' Customers) (tbl_Customers (mysql s))"
    unfolding m by (rule customer_steps_docs [OF all])
  then have docs: "list_all2 (\<lambda>d c. \<exists>cart. doc_field ''cart'' d = Some (PList cart)
            \<and> length cart = length (filter (\<lambda>r. cart_cust_id r = cust_id c) (tbl_Carts (mysql s)))
            \<and> map (doc_field ''cart_seq_no'') cart
                = map (\<lambda>n. Some (PInt n))
                    (sort (map cart_seq_no
                       (filter (\<lambda>r. cart_cust_id r = cust_id c) (tbl_Carts (mysql s))))))
          (mongo s' Customers) (tbl_Customers (mysql s))"
    by (simp only: length_select_cart select_cart_keys)
  show ?thesis
    by (rule exI [of _ "PDict r"], rule exI [of _ s']) (intro conjI r1 r2 ids dist docs)
qed

lemma quoted_state_ok: "index_faults_only quoted_state"
  by (simp add: index_faults_only_def quoted_state_def blank_state_def)

lemma read_quoted: "read_cart_query (cart_query quoted_id) = Every_row"
  by (simp add: read_cart_query_def sql_tokens_def cart_query_def cart_query_head_def
      cart_query_tail_def indent_def cart_select_tokens_def outside_def is_space_def is_word_def
      upper_def quoted_id_def)

lemma quoted_customers:
  "tbl_Customers (mysql quoted_state)
     = [\<lparr>cust_id = ''ann@example.com'', passwd = ''pw1'', cust_name = ''Ann'',
          m_phone = ''010-0000-0001'', agree_terms = ''Y'', agree_privacy = ''Y'',
          agree_marketing = ''N''\<rparr>,
         \<lparr>cust_id = ''bob@example.com'', passwd = ''pw2'', cust_name = ''Bob'',
          m_phone = ''010-0000-0002'', agree_terms = ''Y'', agree_privacy = ''Y'',
          agree_marketing = ''Y''\<rparr>,
         \<lparr>cust_id = quoted_id, passwd = ''pw3'', cust_name = ''Eve'',
          m_phone = ''010-0000-0003'', agree_terms = ''Y'', agree_privacy = ''Y'',
          agree_marketing = ''N''\<rparr>]"
  by (simp add: quoted_state_def blank_state_def shop_db_def)

text \<open>
  C1 does not hold of the code for an identifier that holds a single quote. With the
  identifier \<^verbatim>\<open>x' OR '1'='1\<close> the statement the scripts build reads
  \<^verbatim>\<open>WHERE cust_id = 'x' OR '1'='1' ORDER BY cart_seq_no\<close>, which selects every
  cart row. In the shop with such a third customer, who has no cart row, no call raises,
  both loaders return normally, and the \<^verbatim>\<open>cart\<close> array of that customer's
  document holds the three cart rows of the other two customers.
\<close>

theorem quoted_identifier_embeds_every_cart:
  "\<exists>r s' d1 d2 d3 cart. migrate_customers_collection quoted_state = (Inr r, s')
     \<and> migrate_Customers_collection quoted_state = (Inr (), s')
     \<and> mongo s' Customers = [d1, d2, d3]
     \<and> doc_id d3 = Some (PStr quoted_id)
     \<and> doc_field ''cart'' d3 = Some (PList cart)
     \<and> map (doc_field ''cart_seq_no'') cart = [Some (PInt 1), Some (PInt 2), Some (PInt 3)]
     \<and> length (filter (\<lambda>r. cart_cust_id r = quoted_id) (tbl_Carts (mysql quoted_state))) = 0"
proof -
  let ?db = "mysql quoted_state"
  let ?rows = "\<lambda>c. if cust_id c = quoted_id then select_every_cart ?db
                    else select_cart ?db (cust_id c)"
  have p1: "plain ''ann@example.com''" and p2: "plain ''bob@example.com''"
    by (simp_all add: plain_def)
  have q: "quoted_id \<noteq> ''ann@example.com''" "quoted_id \<noteq> ''bob@example.com''"
    by (simp_all add: quoted_id_def)
  have rows: "\<forall>c \<in> set (tbl_Customers ?db). run_cart_query ?db (cart_query (cust_id c)) = Inr (?rows c)"
    unfolding quoted_customers using q
    by (simp add: run_cart_query_plain [OF p1] run_cart_query_plain [OF p2])
       (simp add: run_cart_query_def read_quoted)
  have d: "distinct (map cust_id (tbl_Customers ?db))"
    unfolding quoted_customers using q by simp
  obtain steps r s' where
    r1: "migrate_customers_collection quoted_state = (Inr (PDict r), s')"
    and r2: "migrate_Customers_collection quoted_state = (Inr (), s')"
    and adv: "advanced (quoted_state\<lparr>mongo := (mongo quoted_state)(Customers := map fst steps)\<rparr>) s'"
    and all: "list_all2 (\<lambda>st c. \<exists>now cart. st = (customer_doc c now cart, length (?rows c))
                \<and> list_all2 (\<lambda>d item. \<exists>now. d = cart_item_doc item now) cart (?rows c))
               steps (tbl_Customers ?db)"
    using migrate_customers_ok [OF quoted_state_ok d rows] by blast
  have m: "mongo s' Customers = map fst steps"
    using advanced_fields(3) [OF adv] by simp
  have ids: "map doc_id (mongo s' Customers) = map (\<lambda>c. Some (PStr (cust_id c))) (tbl_Customers ?db)"
    unfolding m using all by (rule customer_steps_ids)
  have docs: "list_all2 (\<lambda>d c. \<exists>cart. doc_field ''cart'' d = Some (PList cart)
            \<and> length cart = length (?rows c)
            \<and> map (doc_field ''cart_seq_no'') cart = map (\<lambda>n. Some (PInt n)) (map fst (?rows c)))
          (mongo s' Customers) (tbl_Customers ?db)"
    unfolding m by (rule customer_steps_docs [OF all])
  have every: "map fst (select_every_cart ?db) = [1, 2, 3]"
    by (simp add: select_every_cart_def quoted_state_def blank_state_def shop_db_def)
  from docs obtain d1 d2 d3 cart where
    ms: "mongo s' Customers = [d1, d2, d3]"
    and c3: "doc_field ''cart'' d3 = Some (PList cart)"
    and k3: "map (doc_field ''cart_seq_no'') cart
               = map (\<lambda>n. Some (PInt n)) (map fst (select_every_cart ?db))"
    unfolding quoted_customers list_all2_Cons2 by auto
  have i3: "doc_id d3 = Some (PStr quoted_id)"
    using ids unfolding ms quoted_customers by simp
  have k3': "map (doc_field ''cart_seq_no'') cart = [Some (PInt 1), Some (PInt 2), Some (PInt 3)]"
    using k3 by (simp add: every)
  have none: "length (filter (\<lambda>r. cart_cust_id r = quoted_id) (tbl_Carts ?db)) = 0"
    using q by (simp add: quoted_state_def blank_state_def shop_db_def)
  show ?thesis
    by (rule exI [of _ "PDict r"], rule exI [of _ s'], rule exI [of _ d1], rule exI [of _ d2],
        rule exI [of _ d3], rule exI [of _ cart])
       (intro conjI r1 r2 ms i3 c3 k3' none)
qed

section \<open>The order assembler\<close>

lemma order_items_loop:
  assumes "index_faults_only s"
  shows "\<exists>s'. io_mapM order_item_step items s
                 = (Inr (map (\<lambda>item. item_doc item (count_reviews (mysql s) (fst item))) items), s')
          \<and> advanced s s'"
  using assms
proof (induction items arbitrary: s)
  case Nil
  show ?case by (simp add: io_pure_apply advanced_refl)
next
  case (Cons item items)
  let ?s1 = "s\<lparr>trace := trace s @ [Execute (CountReviews (fst item))]\<rparr>"
  have ok1: "index_faults_only ?s1"
    using Cons.prems by (simp add: index_faults_only_def)
  obtain s' where
    rest: "io_mapM order_item_step items ?s1
             = (Inr (map (\<lambda>item. item_doc item (count_reviews (mysql s) (fst item))) items), s')"
    and adv: "advanced ?s1 s'"
    using Cons.IH [OF ok1] by auto
  have one: "order_item_step item s = (Inr (item_doc item (count_reviews (mysql s) (fst item))), ?s1)"
    by (simp add: order_item_step_def io_bind_apply fetch_ok [OF Cons.prems] io_pure_apply)
  have "io_mapM order_item_step (item # items) s
          = (Inr (map (\<lambda>item. item_doc item (count_reviews (mysql s) (fst item))) (item # items)), s')"
    by (simp add: io_bind_apply one rest io_pure_apply)
  moreover have "advanced s s'"
    by (rule advanced_trans [OF advanced_call adv])
  ultimately show ?case by blast
qed

lemma order_step_ok:
  assumes "index_faults_only s"
  shows "\<exists>s'. order_step order s
                 = (Inr (order_doc order (order_items_docs (mysql s) (ord_no order)),
                         length (select_order_items (mysql s) (ord_no order))), s')
          \<and> advanced s s'"
proof -
  let ?items = "select_order_items (mysql s) (ord_no order)"
  let ?s1 = "s\<lparr>trace := trace s @ [Execute (SelectOrderItems (ord_no order))]\<rparr>"
  have ok1: "index_faults_only ?s1"
    using assms by (simp add: index_faults_only_def)
  obtain s' where
    loop: "io_mapM order_item_step ?items ?s1
             = (Inr (map (\<lambda>item. item_doc item (count_reviews (mysql s) (fst item))) ?items), s')"
    and adv: "advanced ?s1 s'"
    using order_items_loop [OF ok1, of ?items] by auto
  have "order_step order s
          = (Inr (order_doc order (order_items_docs (mysql s) (ord_no order)), length ?items), s')"
    by (simp add: order_step_def io_bind_apply fetch_ok [OF assms] loop io_pure_apply
        order_items_docs_def)
  moreover have "advanced s s'"
    by (rule advanced_trans [OF advanced_call adv])
  ultimately show ?thesis by blast
qed

lemma orders_loop:
  assumes "index_faults_only s"
  shows "\<exists>s'. io_mapM order_step os s
                 = (Inr (map (\<lambda>order. (order_doc order (order_items_docs (mysql s) (ord_no order)),
                                         length (select_order_items (mysql s) (ord_no order)))) os), s')
          \<and> advanced s s'"
  using assms
proof (induction os arbitrary: s)
  case Nil
  show ?case by (simp add: io_pure_apply advanced_refl)
next
  case (Cons order os)
  obtain s1 where
    one: "order_step order s
            = (Inr (order_doc order (order_items_docs (mysql s) (ord_no order)),
                    length (select_order_items (mysql s) (ord_no order))), s1)"
    and adv1: "advanced s s1"
    using order_step_ok [OF Cons.prems, of order] by blast
  have ok1: "index_faults_only s1"
    using adv1 Cons.prems by (rule advanced_ok)
  have db1: "mysql s1 = mysql s"
    using adv1 by (rule advanced_fields)
  obtain s' where
    rest: "io_mapM order_step os s1
             = (Inr (map (\<lambda>order. (order_doc order (order_items_docs (mysql s) (ord_no order)),
                                     length (select_order_items (mysql s) (ord_no order)))) os), s')"
    and adv2: "advanced s1 s'"
    using Cons.IH [OF ok1] unfolding db1 by blast
  have "io_mapM order_step (order # os) s
          = (Inr (map (\<lambda>order. (order_doc order (order_items_docs (mysql s) (ord_no order)),
                                  length (select_order_items (mysql s) (ord_no order)))) (order # os)), s')"
    by (simp add: io_bind_apply one rest io_pure_apply)
  moreover have "advanced s s'"
    using adv1 adv2 by (rule advanced_trans)
  ultimately show ?case by blast
qed

lemma order_doc_fields:
  "doc_id (order_doc order its) = None"
  "doc_field ''ord_no'' (order_doc order its) = Some (PInt (ord_no order))"
  "doc_field ''items'' (order_doc order its) = Some (PList its)"
  by (simp_all add: order_doc_def doc_id_def doc_field_def)

lemma migrate_orders_ok:
  assumes ok: "index_faults_only s"
  shows "\<exists>r s'.
            migrate_orders_collection s = (Inr (PDict r), s')
          \<and> migrate_Orders_collection s = (Inr (), s')
          \<and> dict_get ''count'' r = Some (PInt (int (length (tbl_Orders (mysql s)))))
          \<and> advanced (s\<lparr>mongo := (mongo s)(Orders :=
                 map (\<lambda>order. order_doc order (order_items_docs (mysql s) (ord_no order)))
                   (tbl_Orders (mysql s)))\<rparr>) s'
          \<and> Drop Orders \<in> set (drop (length (trace s)) (trace s'))"
proof -
  let ?os = "tbl_Orders (mysql s)"
  let ?steps = "map (\<lambda>order. (order_doc order (order_items_docs (mysql s) (ord_no order)),
                              length (select_order_items (mysql s) (ord_no order)))) ?os"
  let ?docs = "map (\<lambda>order. order_doc order (order_items_docs (mysql s) (ord_no order))) ?os"
  let ?s2 = "s\<lparr>mongo := (mongo s)(Orders := []),
               trace := trace s @ [Drop Orders, Execute SelectOrders]\<rparr>"
  have ok2: "index_faults_only ?s2"
    using ok by (simp add: index_faults_only_def)
  obtain s3 where
    loop: "io_mapM order_step ?os ?s2 = (Inr ?steps, s3)"
    and adv: "advanced ?s2 s3"
    using orders_loop [OF ok2, of ?os] by auto
  obtain tr tk where s3: "s3 = ?s2\<lparr>trace := trace ?s2 @ tr, ticks := tk\<rparr>"
    using adv unfolding advanced_def by blast
  have ok3: "index_faults_only s3"
    using adv ok2 by (rule advanced_ok)
  have fst_steps: "map fst ?steps = ?docs"
    by (simp add: comp_def)
  have "list_all (\<lambda>d. doc_id d = None) ?docs"
    by (simp add: list_all_iff order_doc_fields)
  then have ins: "insert_docs ?docs (mongo s3 Orders) = (None, ?docs)"
    using insert_docs_no_ids [of ?docs "[]"] by (simp add: s3)
  let ?s4 = "if ?docs \<noteq> [] then
               s3\<lparr>mongo := (mongo s3)(Orders := ?docs),
                  trace := trace s3 @ [InsertMany Orders ?docs]\<rparr> else s3"
  have put: "(if ?docs \<noteq> [] then mongo_insert_many Orders ?docs else io_pure ()) s3 = (Inr (), ?s4)"
    by (simp add: insert_many_ok [OF ok3 ins] io_pure_apply)
  let ?r = "[(''count'', PInt (int (length ?docs))),
             (''collection_name'', PStr ''Orders''),
             (''mysql_records'', PInt (int (length ?os))),
             (''mongodb_documents'', PInt (int (length ?docs))),
             (''total_order_items'', PInt (int (sum_list (map snd ?steps))))]"
  have r1: "migrate_orders_collection s = (Inr (PDict ?r), ?s4)"
    unfolding migrate_orders_collection_def fetch_customers_after_drop [OF ok]
    by (simp only: io_bind_apply loop put Let_def io_pure_apply prod.case sum.case fst_steps)
  have r2: "migrate_Orders_collection s = (Inr (), ?s4)"
    unfolding migrate_Orders_collection_def fetch_customers_after_drop [OF ok]
    by (simp only: io_bind_apply loop put Let_def io_pure_apply prod.case sum.case fst_steps)
  have a4: "advanced (s\<lparr>mongo := (mongo s)(Orders := ?docs)\<rparr>) ?s4"
    unfolding advanced_def
    by (rule exI [of _ "if ?docs \<noteq> []
          then [Drop Orders, Execute SelectOrders] @ tr @ [InsertMany Orders ?docs]
          else [Drop Orders, Execute SelectOrders] @ tr"], rule exI [of _ tk])
       (simp add: s3)
  have t4: "Drop Orders \<in> set (drop (length (trace s)) (trace ?s4))"
    by (simp add: s3)
  have cnt: "dict_get ''count'' ?r = Some (PInt (int (length ?os)))"
    by simp
  show ?thesis
    by (rule exI [of _ ?r], rule exI [of _ ?s4]) (intro conjI r1 r2 cnt a4 t4)
qed

lemma length_select_order_items:
  "length (select_order_items db n)
     = sum_list (map (\<lambda>oi. length (filter (\<lambda>p. oi_prod_cd oi = prod_cd p) (tbl_Products db)))
         (filter (\<lambda>oi. oi_ord_no oi = n) (tbl_Ord_items db)))"
  by (simp add: select_order_items_def length_concat comp_def)

lemma sum_list_ones:
  "(\<forall>x \<in> set xs. f x = (1::nat)) \<Longrightarrow> sum_list (map f xs) = length xs"
  by (induction xs) simp_all

lemma item_doc_fields:
  "doc_field ''ord_item_no'' (item_doc item k) = Some (PInt (fst item))"
  "doc_field ''review_written'' (item_doc item k) = Some (PBool (k > 0))"
  by (simp_all add: item_doc_def doc_field_def split: prod.splits)

lemma count_reviews_positive:
  "(count_reviews db n > 0) = (\<exists>r \<in> set (tbl_Prod_evals db). pe_ord_item_no r = n)"
  by (simp add: count_reviews_def filter_empty_conv)

lemma order_items_docs_flags:
  "list_all (\<lambda>it. \<exists>n. doc_field ''ord_item_no'' it = Some (PInt n)
       \<and> doc_field ''review_written'' it
           = Some (PBool (\<exists>r \<in> set (tbl_Prod_evals db). pe_ord_item_no r = n)))
     (order_items_docs db m)"
  by (simp add: order_items_docs_def list_all_iff item_doc_fields count_reviews_positive)

lemma length_order_items_docs:
  "length (order_items_docs db n) = length (select_order_items db n)"
  by (simp add: order_items_docs_def)

lemma dangling_state_ok: "index_faults_only dangling_state"
  by (simp add: index_faults_only_def dangling_state_def blank_state_def)

lemma items_explicit:
  "order_items_docs db n
     = concat (map (\<lambda>oi.
         map (\<lambda>p. PDict [(''ord_item_no'', PInt (ord_item_no oi)),
                               (''prod_cd'', PStr (oi_prod_cd oi)),
                               (''prod_name'', PStr (prod_name p)),
                               (''prod_size'', PStr (oi_prod_size oi)),
                               (''unit_price'', PInt (py_int (price p))),
                               (''ord_qty'', PInt (oi_ord_qty oi)),
                               (''cart_seq_no'', PInt (oi_cart_seq_no oi)),
                               (''review_written'',
                                  PBool (\<exists>r \<in> set (tbl_Prod_evals db). pe_ord_item_no r = ord_item_no oi))])
           (filter (\<lambda>p. oi_prod_cd oi = prod_cd p) (tbl_Products db)))
        (filter (\<lambda>oi. oi_ord_no oi = n) (tbl_Ord_items db)))"
  by (simp add: order_items_docs_def select_order_items_def item_doc_def map_concat comp_def
      count_reviews_positive)

text \<open>
  C2, as amended. In a run in which no call to the stores raises, both scripts' order
  loaders return normally and leave the same state; the Orders collection then holds one
  document for each order row, in order. Its \<^verbatim>\<open>items\<close> array is, line by line
  in the order of the order's order-line rows, one entry for each product row that
  carries the line's product code: the entry holds the line's number, product code, size,
  quantity and cart sequence number, the product's name and its price as an integer, and
  \<^verbatim>\<open>review_written\<close>, which is true if and only if some review row references
  the line's number. A line whose product code no product row carries has no entry. So
  the array has as many entries as there are such pairs, and exactly as many as the
  order has order-line rows when each of them has exactly one product row.
\<close>

theorem order_documents_embed_lines:
  assumes "index_faults_only s"
  shows "\<exists>r s'. migrate_orders_collection s = (Inr r, s')
     \<and> migrate_Orders_collection s = (Inr (), s')
     \<and> list_all2 (\<lambda>d order. doc_field ''ord_no'' d = Some (PInt (ord_no order))
          \<and> (\<exists>its. doc_field ''items'' d = Some (PList its)
              \<and> its = concat (map (\<lambda>oi.
                      map (\<lambda>p. PDict [(''ord_item_no'', PInt (ord_item_no oi)),
                               (''prod_cd'', PStr (oi_prod_cd oi)),
                               (''prod_name'', PStr (prod_name p)),
                               (''prod_size'', PStr (oi_prod_size oi)),
                               (''unit_price'', PInt (py_int (price p))),
                               (''ord_qty'', PInt (oi_ord_qty oi)),
                               (''cart_seq_no'', PInt (oi_cart_seq_no oi)),
                               (''review_written'',
                                  PBool (\<exists>r \<in> set (tbl_Prod_evals (mysql s)). pe_ord_item_no r = ord_item_no oi))])
                        (filter (\<lambda>p. oi_prod_cd oi = prod_cd p) (tbl_Products (mysql s))))
                     (filter (\<lambda>oi. oi_ord_no oi = ord_no order) (tbl_Ord_items (mysql s))))
              \<and> length its
                  = sum_list (map (\<lambda>oi. length (filter (\<lambda>p. oi_prod_cd oi = prod_cd p)
                                                   (tbl_Products (mysql s))))
                      (filter (\<lambda>oi. oi_ord_no oi = ord_no order) (tbl_Ord_items (mysql s))))
              \<and> ((\<forall>oi \<in> set (filter (\<lambda>oi. oi_ord_no oi = ord_no order) (tbl_Ord_items (mysql s))).
                     length (filter (\<lambda>p. oi_prod_cd oi = prod_cd p) (tbl_Products (mysql s))) = 1)
                  \<longrightarrow> length its
                       = length (filter (\<lambda>oi. oi_ord_no oi = ord_no order) (tbl_Ord_items (mysql s))))))
          (mongo s' Orders) (tbl_Orders (mysql s))"
proof -
  let ?db = "mysql s"
  obtain r s' where
    r1: "migrate_orders_collection s = (Inr (PDict r), s')"
    and r2: "migrate_Orders_collection s = (Inr (), s')"
    and adv: "advanced (s\<lparr>mongo := (mongo s)(Orders :=
                 map (\<lambda>order. order_doc order (order_items_docs ?db (ord_no order)))
                   (tbl_Orders ?db))\<rparr>) s'"
    using migrate_orders_ok [OF assms] by blast
  have m: "mongo s' Orders
             = map (\<lambda>order. order_doc order (order_items_docs ?db (ord_no order))) (tbl_Orders ?db)"
    using advanced_fields(3) [OF adv] by simp
  have one: "\<And>order. (\<lambda>d order. doc_field ''ord_no'' d = Some (PInt (ord_no order))
          \<and> (\<exists>its. doc_field ''items'' d = Some (PList its)
              \<and> its = concat (map (\<lambda>oi.
                      map (\<lambda>p. PDict [(''ord_item_no'', PInt (ord_item_no oi)),
                               (''prod_cd'', PStr (oi_prod_cd oi)),
                               (''prod_name'', PStr (prod_name p)),
                               (''prod_size'', PStr (oi_prod_size oi)),
                               (''unit_price'', PInt (py_int (price p))),
                               (''ord_qty'', PInt (oi_ord_qty oi)),
                               (''cart_seq_no'', PInt (oi_cart_seq_no oi)),
                               (''review_written'',
                                  PBool (\<exists>r \<in> set (tbl_Prod_evals ?db). pe_ord_item_no r = ord_item_no oi))])
                        (filter (\<lambda>p. oi_prod_cd oi = prod_cd p) (tbl_Products ?db)))
                     (filter (\<lambda>oi. oi_ord_no oi = ord_no order) (tbl_Ord_items ?db)))
              \<and> length its
                  = sum_list (map (\<lambda>oi. length (filter (\<lambda>p. oi_prod_cd oi = prod_cd p)
                                                   (tbl_Products ?db)))
                      (filter (\<lambda>oi. oi_ord_no oi = ord_no order) (tbl_Ord_items ?db)))
              \<and> ((\<forall>oi \<in> set (filter (\<lambda>oi. oi_ord_no oi = ord_no order) (tbl_Ord_items ?db)).
                     length (filter (\<lambda>p. oi_prod_cd oi = prod_cd p) (tbl_Products ?db)) = 1)
                  \<longrightarrow> length its
                       = length (filter (\<lambda>oi. oi_ord_no oi = ord_no order) (tbl_Ord_items ?db)))))
               (order_doc order (order_items_docs ?db (ord_no order))) order"
  proof -
    fix order :: order_row
    let ?its = "order_items_docs ?db (ord_no order)"
    have len: "length ?its
                 = sum_list (map (\<lambda>oi. length (filter (\<lambda>p. oi_prod_cd oi = prod_cd p)
                                                   (tbl_Products ?db)))
                      (filter (\<lambda>oi. oi_ord_no oi = ord_no order) (tbl_Ord_items ?db)))"
      by (simp only: length_order_items_docs length_select_order_items)
    have full: "(\<forall>oi \<in> set (filter (\<lambda>oi. oi_ord_no oi = ord_no order) (tbl_Ord_items ?db)).
                     length (filter (\<lambda>p. oi_prod_cd oi = prod_cd p) (tbl_Products ?db)) = 1)
                  \<longrightarrow> length ?its
                       = length (filter (\<lambda>oi. oi_ord_no oi = ord_no order) (tbl_Ord_items ?db))"
      unfolding len by (intro impI sum_list_ones)
    show "(\<lambda>d order. doc_field ''ord_no'' d = Some (PInt (ord_no order))
          \<and> (\<exists>its. doc_field ''items'' d = Some (PList its)
              \<and> its = concat (map (\<lambda>oi.
                      map (\<lambda>p. PDict [(''ord_item_no'', PInt (ord_item_no oi)),
                               (''prod_cd'', PStr (oi_prod_cd oi)),
                               (''prod_name'', PStr (prod_name p)),
                               (''prod_size'', PStr (oi_prod_size oi)),
                               (''unit_price'', PInt (py_int (price p))),
                               (''ord_qty'', PInt (oi_ord_qty oi)),
                               (''cart_seq_no'', PInt (oi_cart_seq_no oi)),
                               (''review_written'',
                                  PBool (\<exists>r \<in> set (tbl_Prod_evals ?db). pe_ord_item_no r = ord_item_no oi))])
                        (filter (\<lambda>p. oi_prod_cd oi = prod_cd p) (tbl_Products ?db)))
                     (filter (\<lambda>oi. oi_ord_no oi = ord_no order) (tbl_Ord_items ?db)))
              \<and> length its
                  = sum_list (map (\<lambda>oi. length (filter (\<lambda>p. oi_prod_cd oi = prod_cd p)
                                                   (tbl_Products ?db)))
                      (filter (\<lambda>oi. oi_ord_no oi = ord_no order) (tbl_Ord_items ?db)))
              \<and> ((\<forall>oi \<in> set (filter (\<lambda>oi. oi_ord_no oi = ord_no order) (tbl_Ord_items ?db)).
                     length (filter (\<lambda>p. oi_prod_cd oi = prod_cd p) (tbl_Products ?db)) = 1)
                  \<longrightarrow> length its
                       = length (filter (\<lambda>oi. oi_ord_no oi = ord_no order) (tbl_Ord_items ?db)))))
               (order_doc order ?its) order"
      by (rule conjI, rule order_doc_fields, rule exI [of _ ?its])
         (intro conjI order_doc_fields len full items_explicit)
  qed
  have all: "list_all2 (\<lambda>d order. doc_field ''ord_no'' d = Some (PInt (ord_no order))
          \<and> (\<exists>its. doc_field ''items'' d = Some (PList its)
              \<and> its = concat (map (\<lambda>oi.
                      map (\<lambda>p. PDict [(''ord_item_no'', PInt (ord_item_no oi)),
                               (''prod_cd'', PStr (oi_prod_cd oi)),
                               (''prod_name'', PStr (prod_name p)),
                               (''prod_size'', PStr (oi_prod_size oi)),
                               (''unit_price'', PInt (py_int (price p))),
                               (''ord_qty'', PInt (oi_ord_qty oi)),
                               (''cart_seq_no'', PInt (oi_cart_seq_no oi)),
                               (''review_written'',
                                  PBool (\<exists>r \<in> set (tbl_Prod_evals ?db). pe_ord_item_no r = ord_item_no oi))])
                        (filter (\<lambda>p. oi_prod_cd oi = prod_cd p) (tbl_Products ?db)))
                     (filter (\<lambda>oi. oi_ord_no oi = ord_no order) (tbl_Ord_items ?db)))
              \<and> length its
                  = sum_list (map (\<lambda>oi. length (filter (\<lambda>p. oi_prod_cd oi = prod_cd p)
                                                   (tbl_Products ?db)))
                      (filter (\<lambda>oi. oi_ord_no oi = ord_no order) (tbl_Ord_items ?db)))
              \<and> ((\<forall>oi \<in> set (filter (\<lambda>oi. oi_ord_no oi = ord_no order) (tbl_Ord_items ?db)).
                     length (filter (\<lambda>p. oi_prod_cd oi = prod_cd p) (tbl_Products ?db)) = 1)
                  \<longrightarrow> length its
                       = length (filter (\<lambda>oi. oi_ord_no oi = ord_no order) (tbl_Ord_items ?db)))))
          (mongo s' Orders) (tbl_Orders ?db)"
    unfolding m list_all2_map1 by (rule list_all2_refl) (rule one)
  show ?thesis
    by (rule exI [of _ "PDict r"], rule exI [of _ s']) (intro conjI r1 r2 all)
qed


theorem order_documents_embed_lines_witness:
  "\<exists>r s' d. migrate_orders_collection shop_state = (Inr r, s')
     \<and> mongo s' Orders = [d]
     \<and> doc_field ''ord_no'' d = Some (PInt 7)
     \<and> doc_field ''items'' d
         = Some (PList [PDict [(''ord_item_no'', PInt 70), (''prod_cd'', PStr ''P1''),
                               (''prod_name'', PStr ''shirt''), (''prod_size'', PStr ''S''),
                               (''unit_price'', PInt 19), (''ord_qty'', PInt 1),
                               (''cart_seq_no'', PInt 1), (''review_written'', PBool True)],
                        PDict [(''ord_item_no'', PInt 71), (''prod_cd'', PStr ''P1''),
                               (''prod_name'', PStr ''shirt''), (''prod_size'', PStr ''M''),
                               (''unit_price'', PInt 19), (''ord_qty'', PInt 1),
                               (''cart_seq_no'', PInt 3), (''review_written'', PBool False)]])"
proof -
  have os: "tbl_Orders (mysql shop_state)
              = [\<lparr>ord_no = 7, ord_date = Some (SqlDate 20000), ord_amount = Some (Decimal 1999 2),
                  ord_cust_id = ''ann@example.com''\<rparr>]"
    by (simp add: shop_state_def shop_db_def)
  obtain r s' where
    r1: "migrate_orders_collection shop_state = (Inr r, s')"
    and all: "list_all2 (\<lambda>d order. doc_field ''ord_no'' d = Some (PInt (ord_no order))
          \<and> (\<exists>its. doc_field ''items'' d = Some (PList its)
              \<and> its = concat (map (\<lambda>oi.
                      map (\<lambda>p. PDict [(''ord_item_no'', PInt (ord_item_no oi)),
                               (''prod_cd'', PStr (oi_prod_cd oi)),
                               (''prod_name'', PStr (prod_name p)),
                               (''prod_size'', PStr (oi_prod_size oi)),
                               (''unit_price'', PInt (py_int (price p))),
                               (''ord_qty'', PInt (oi_ord_qty oi)),
                               (''cart_seq_no'', PInt (oi_cart_seq_no oi)),
                               (''review_written'',
                                  PBool (\<exists>r \<in> set (tbl_Prod_evals (mysql shop_state)). pe_ord_item_no r = ord_item_no oi))])
                        (filter (\<lambda>p. oi_prod_cd oi = prod_cd p) (tbl_Products (mysql shop_state))))
                     (filter (\<lambda>oi. oi_ord_no oi = ord_no order) (tbl_Ord_items (mysql shop_state))))
              \<and> length its
                  = sum_list (map (\<lambda>oi. length (filter (\<lambda>p. oi_prod_cd oi = prod_cd p)
                                                   (tbl_Products (mysql shop_state))))
                      (filter (\<lambda>oi. oi_ord_no oi = ord_no order) (tbl_Ord_items (mysql shop_state))))
              \<and> ((\<forall>oi \<in> set (filter (\<lambda>oi. oi_ord_no oi = ord_no order) (tbl_Ord_items (mysql shop_state))).
                     length (filter (\<lambda>p. oi_prod_cd oi = prod_cd p) (tbl_Products (mysql shop_state))) = 1)
                  \<longrightarrow> length its
                       = length (filter (\<lambda>oi. oi_ord_no oi = ord_no order) (tbl_Ord_items (mysql shop_state))))))
          (mongo s' Orders) (tbl_Orders (mysql shop_state))"
    using order_documents_embed_lines [OF shop_state_ok] by blast
  from all obtain d its where
    docs: "mongo s' Orders = [d]"
    and no: "doc_field ''ord_no'' d = Some (PInt 7)"
    and its: "doc_field ''items'' d = Some (PList its)"
    and ex: "its = concat (map (\<lambda>oi.
                      map (\<lambda>p. PDict [(''ord_item_no'', PInt (ord_item_no oi)),
                               (''prod_cd'', PStr (oi_prod_cd oi)),
                               (''prod_name'', PStr (prod_name p)),
                               (''prod_size'', PStr (oi_prod_size oi)),
                               (''unit_price'', PInt (py_int (price p))),
                               (''ord_qty'', PInt (oi_ord_qty oi)),
                               (''cart_seq_no'', PInt (oi_cart_seq_no oi)),
                               (''review_written'',
                                  PBool (\<exists>r \<in> set (tbl_Prod_evals (mysql shop_state)). pe_ord_item_no r = ord_item_no oi))])
                        (filter (\<lambda>p. oi_prod_cd oi = prod_cd p) (tbl_Products (mysql shop_state))))
                     (filter (\<lambda>oi. oi_ord_no oi = 7) (tbl_Ord_items (mysql shop_state))))"
    unfolding os list_all2_Cons2 by auto
  have "its = [PDict [(''ord_item_no'', PInt 70), (''prod_cd'', PStr ''P1''),
                               (''prod_name'', PStr ''shirt''), (''prod_size'', PStr ''S''),
                               (''unit_price'', PInt 19), (''ord_qty'', PInt 1),
                               (''cart_seq_no'', PInt 1), (''review_written'', PBool True)],
                        PDict [(''ord_item_no'', PInt 71), (''prod_cd'', PStr ''P1''),
                               (''prod_name'', PStr ''shirt''), (''prod_size'', PStr ''M''),
                               (''unit_price'', PInt 19), (''ord_qty'', PInt 1),
                               (''cart_seq_no'', PInt 3), (''review_written'', PBool False)]]"
    unfolding ex by (simp add: shop_state_def shop_db_def)
  then show ?thesis
    using r1 docs no its by blast
qed

text \<open>
  An order line whose product code no product row carries is not in the array: the
  order has two order-line rows and its document one item.
\<close>

theorem unmatched_order_line_is_dropped:
  "\<exists>r s' d. migrate_orders_collection dangling_state = (Inr r, s')
     \<and> mongo s' Orders = [d]
     \<and> doc_field ''ord_no'' d = Some (PInt 7)
     \<and> doc_field ''items'' d
         = Some (PList [item_doc (70, 1, ''P1'', ''S'', 1, ''shirt'', Decimal 1999 2) 1])
     \<and> length (filter (\<lambda>oi. oi_ord_no oi = 7) (tbl_Ord_items (mysql dangling_state))) = 2"
proof -
  obtain r s' where
    r1: "migrate_orders_collection dangling_state = (Inr (PDict r), s')"
    and adv: "advanced (dangling_state\<lparr>mongo := (mongo dangling_state)(Orders :=
                 map (\<lambda>order. order_doc order (order_items_docs (mysql dangling_state) (ord_no order)))
                   (tbl_Orders (mysql dangling_state)))\<rparr>) s'"
    using migrate_orders_ok [OF dangling_state_ok] by blast
  have m: "mongo s' Orders
             = map (\<lambda>order. order_doc order (order_items_docs (mysql dangling_state) (ord_no order)))
                 (tbl_Orders (mysql dangling_state))"
    using advanced_fields(3) [OF adv] by simp
  have its: "order_items_docs (mysql dangling_state) 7
               = [item_doc (70, 1, ''P1'', ''S'', 1, ''shirt'', Decimal 1999 2) 1]"
    by (simp add: order_items_docs_def select_order_items_def count_reviews_def
        dangling_state_def shop_db_def)
  have docs: "mongo s' Orders
                = [order_doc \<lparr>ord_no = 7, ord_date = Some (SqlDate 20000),
                              ord_amount = Some (Decimal 1999 2), ord_cust_id = ''ann@example.com''\<rparr>
                     [item_doc (70, 1, ''P1'', ''S'', 1, ''shirt'', Decimal 1999 2) 1]]"
    unfolding m using its by (simp add: dangling_state_def shop_db_def)
  have lines: "length (filter (\<lambda>oi. oi_ord_no oi = 7) (tbl_Ord_items (mysql dangling_state))) = 2"
    by (simp add: dangling_state_def)
  show ?thesis
    using r1 docs lines by (simp add: order_doc_fields)
qed

section \<open>The product and review assemblers\<close>

lemma product_doc_id: "doc_id (product_doc p) = Some (PStr (prod_cd p))"
  by (simp add: product_doc_def doc_id_def)

lemma review_doc_id: "doc_id (review_doc r now) = None"
  by (simp add: review_doc_def doc_id_def split: prod.splits)

lemma migrate_products_ok:
  assumes ok: "index_faults_only s" and d: "distinct (map prod_cd (tbl_Products (mysql s)))"
  shows "\<exists>r s'.
            migrate_products_collection s = (Inr (PDict r), s')
          \<and> migrate_Products_collection s = (Inr (), s')
          \<and> dict_get ''count'' r = Some (PInt (int (length (tbl_Products (mysql s)))))
          \<and> advanced (s\<lparr>mongo := (mongo s)(Products := map product_doc (tbl_Products (mysql s)))\<rparr>) s'
          \<and> Drop Products \<in> set (drop (length (trace s)) (trace s'))"
proof -
  let ?ps = "tbl_Products (mysql s)"
  let ?docs = "map product_doc ?ps"
  let ?s2 = "s\<lparr>mongo := (mongo s)(Products := []),
               trace := trace s @ [Drop Products, Execute SelectProducts]\<rparr>"
  have ok2: "index_faults_only ?s2"
    using ok by (simp add: index_faults_only_def)
  have "distinct (map (\<lambda>p. Some (PStr (prod_cd p))) ?ps)"
    using d by (simp add: distinct_map inj_on_def)
  then have dist: "distinct (map doc_id ?docs)"
    by (simp add: comp_def product_doc_id)
  have ins: "insert_docs ?docs (mongo ?s2 Products) = (None, ?docs)"
    using insert_docs_fresh [OF dist, of "[]"] by simp
  let ?s4 = "if ?docs \<noteq> [] then
               ?s2\<lparr>mongo := (mongo ?s2)(Products := ?docs),
                  trace := trace ?s2 @ [InsertMany Products ?docs]\<rparr> else ?s2"
  have put: "(if ?docs \<noteq> [] then mongo_insert_many Products ?docs else io_pure ()) ?s2
               = (Inr (), ?s4)"
    by (simp add: insert_many_ok [OF ok2 ins] io_pure_apply)
  let ?r = "[(''count'', PInt (int (length ?docs))),
             (''collection_name'', PStr ''Products''),
             (''mysql_records'', PInt (int (length ?ps))),
             (''mongodb_documents'', PInt (int (length ?docs)))]"
  have r1: "migrate_products_collection s = (Inr (PDict ?r), ?s4)"
    unfolding migrate_products_collection_def fetch_customers_after_drop [OF ok]
    by (simp only: io_bind_apply put Let_def io_pure_apply prod.case sum.case)
  have r2: "migrate_Products_collection s = (Inr (), ?s4)"
    unfolding migrate_Products_collection_def fetch_customers_after_drop [OF ok]
    by (simp only: put Let_def)
  have a4: "advanced (s\<lparr>mongo := (mongo s)(Products := ?docs)\<rparr>) ?s4"
    unfolding advanced_def
    by (rule exI [of _ "if ?docs \<noteq> []
          then [Drop Products, Execute SelectProducts, InsertMany Products ?docs]
          else [Drop Products, Execute SelectProducts]"], rule exI [of _ "ticks s"])
       simp
  have t4: "Drop Products \<in> set (drop (length (trace s)) (trace ?s4))"
    by simp
  have cnt: "dict_get ''count'' ?r = Some (PInt (int (length ?ps)))"
    by simp
  show ?thesis
    by (rule exI [of _ ?r], rule exI [of _ ?s4]) (intro conjI r1 r2 cnt a4 t4)
qed

lemma reviews_loop:
  "\<exists>nows s'. io_mapM review_step rows s = (Inr (map2 review_doc rows nows), s') \<and> advanced s s'
     \<and> length nows = length rows"
proof (induction rows arbitrary: s)
  case Nil
  show ?case by (simp add: io_pure_apply advanced_refl)
next
  case (Cons r rows)
  let ?s1 = "s\<lparr>ticks := Suc (ticks s)\<rparr>"
  obtain nows s' where
    step: "io_mapM review_step rows ?s1 = (Inr (map2 review_doc rows nows), s')"
    and adv: "advanced ?s1 s'"
    and len: "length nows = length rows"
    using Cons.IH [of ?s1] by blast
  have "io_mapM review_step (r # rows) s
          = (Inr (map2 review_doc (r # rows) (clock s (ticks s) # nows)), s')"
    by (simp add: review_step_def [of r] io_bind_apply datetime_now_apply io_pure_apply step)
  moreover have "advanced s s'"
    by (rule advanced_trans [OF advanced_tick adv])
  moreover have "length (clock s (ticks s) # nows) = length (r # rows)"
    using len by simp
  ultimately show ?case by blast
qed

lemma migrate_reviews_ok:
  assumes ok: "index_faults_only s"
  shows "\<exists>nows r s'.
            migrate_reviews_collection s = (Inr (PDict r), s')
          \<and> migrate_Reviews_collection s = (Inr (), s')
          \<and> dict_get ''count'' r = Some (PInt (int (length (select_reviews (mysql s)))))
          \<and> length nows = length (select_reviews (mysql s))
          \<and> advanced (s\<lparr>mongo := (mongo s)(Reviews :=
                 map2 review_doc (select_reviews (mysql s)) nows)\<rparr>) s'
          \<and> Drop Reviews \<in> set (drop (length (trace s)) (trace s'))"
proof -
  let ?rows = "select_reviews (mysql s)"
  let ?s2 = "s\<lparr>mongo := (mongo s)(Reviews := []),
               trace := trace s @ [Drop Reviews, Execute SelectReviews]\<rparr>"
  have ok2: "index_faults_only ?s2"
    using ok by (simp add: index_faults_only_def)
  obtain nows s3 where
    loop: "io_mapM review_step ?rows ?s2 = (Inr (map2 review_doc ?rows nows), s3)"
    and adv: "advanced ?s2 s3"
    and len: "length nows = length ?rows"
    using reviews_loop [of ?rows ?s2] by blast
  let ?docs = "map2 review_doc ?rows nows"
  obtain tr tk where s3: "s3 = ?s2\<lparr>trace := trace ?s2 @ tr, ticks := tk\<rparr>"
    using adv unfolding advanced_def by blast
  have ok3: "index_faults_only s3"
    using adv ok2 by (rule advanced_ok)
  have "list_all (\<lambda>d. doc_id d = None) ?docs"
    by (auto simp: list_all_iff review_doc_id)
  then have ins: "insert_docs ?docs (mongo s3 Reviews) = (None, ?docs)"
    using insert_docs_no_ids [of ?docs "[]"] by (simp add: s3)
  let ?s4 = "if ?docs \<noteq> [] then
               s3\<lparr>mongo := (mongo s3)(Reviews := ?docs),
                  trace := trace s3 @ [InsertMany Reviews ?docs]\<rparr> else s3"
  have put: "(if ?docs \<noteq> [] then mongo_insert_many Reviews ?docs else io_pure ()) s3 = (Inr (), ?s4)"
    by (simp add: insert_many_ok [OF ok3 ins] io_pure_apply)
  let ?r = "[(''count'', PInt (int (length ?docs))),
             (''collection_name'', PStr ''Reviews''),
             (''mysql_records'', PInt (int (length ?rows))),
             (''mongodb_documents'', PInt (int (length ?docs)))]"
  have r1: "migrate_reviews_collection s = (Inr (PDict ?r), ?s4)"
    unfolding migrate_reviews_collection_def fetch_customers_after_drop [OF ok]
    by (simp only: io_bind_apply loop put Let_def io_pure_apply prod.case sum.case)
  have r2: "migrate_Reviews_collection s = (Inr (), ?s4)"
    unfolding migrate_Reviews_collection_def fetch_customers_after_drop [OF ok]
    by (simp only: io_bind_apply loop put Let_def io_pure_apply prod.case sum.case)
  have a4: "advanced (s\<lparr>mongo := (mongo s)(Reviews := ?docs)\<rparr>) ?s4"
    unfolding advanced_def
    by (rule exI [of _ "if ?docs \<noteq> []
          then [Drop Reviews, Execute SelectReviews] @ tr @ [InsertMany Reviews ?docs]
          else [Drop Reviews, Execute SelectReviews] @ tr"], rule exI [of _ tk])
       (simp add: s3)
  have t4: "Drop Reviews \<in> set (drop (length (trace s)) (trace ?s4))"
    by (simp add: s3)
  have cnt: "dict_get ''count'' ?r = Some (PInt (int (length ?rows)))"
    by (simp add: len)
  show ?thesis
    by (rule exI [of _ nows], rule exI [of _ ?r], rule exI [of _ ?s4])
       (intro conjI r1 r2 cnt len a4 t4)
qed

section \<open>The validator\<close>

lemma dict_get_set_same: "dict_get k (dict_set k v d) = Some v"
  by (induction d) auto

lemma dict_get_set_other: "k' \<noteq> k \<Longrightarrow> dict_get k' (dict_set k v d) = dict_get k' d"
  by (induction d) auto

lemma logger_apply: "logger lvl msg s = (Inr (), s\<lparr>logged := logged s @ [(lvl, msg)]\<rparr>)"
  by (simp add: logger_def)

lemma validate_error:
  assumes "try_steps validation_steps [] s = ((Some e, vr), s1)"
  shows "validate_migration s
           = (Inr (PDict (dict_set ''overall_success'' (PBool False)
                           (dict_set ''error'' (PStr (exn_str e)) vr))),
              s1\<lparr>logged := logged s1 @ [(ERROR, validation_error_prefix @ exn_str e)]\<rparr>)"
  using assms by (simp add: validate_migration_def io_bind_apply logger_apply io_pure_apply)

lemma validate_clean:
  assumes "try_steps validation_steps [] s = ((None, vr), s1)"
  shows "validate_migration s = (Inr (PDict vr), s1)"
  using assms by (simp add: validate_migration_def)

lemma try_steps_cases:
  obtains (failed) e vr s1 where "try_steps fs vr0 s = ((Some e, vr), s1)"
  | (clean) vr s1 where "try_steps fs vr0 s = ((None, vr), s1)"
  by (cases "try_steps fs vr0 s") (metis not_Some_eq prod.exhaust_sel)

lemma validate_never_raises: "\<exists>vr s'. validate_migration s = (Inr (PDict vr), s')"
proof (cases rule: try_steps_cases [of validation_steps "[]" s])
  case (failed e vr s1)
  then show ?thesis using validate_error by blast
next
  case (clean vr s1)
  then show ?thesis using validate_clean by blast
qed

lemma try_steps_clean_Cons:
  assumes "try_steps (f # fs) vr s = ((None, vr'), s')"
  obtains vr1 s1 where "f vr s = (Inr vr1, s1)" and "try_steps fs vr1 s1 = ((None, vr'), s')"
  using assms by (cases "f vr s") (auto split: sum.splits)

lemma count_step_Inr:
  assumes "count_step key q rows c vr s = (Inr vr1, s1)"
  obtains m n where
    "vr1 = dict_set key (PDict [(''mysql_count'', PInt m), (''mongodb_count'', PInt n),
                                (''match'', PBool (m = n))]) vr"
  using assms
  by (auto simp: count_step_def io_bind_apply io_pure_apply split: prod.splits sum.splits)

lemma keep_step_Inr:
  assumes "io_bind m (\<lambda>_. io_pure vr) s = (Inr vr1, s1)"
  shows "vr1 = vr"
  using assms by (auto simp: io_bind_apply io_pure_apply split: prod.splits sum.splits)

lemma overall_step_counts:
  "overall_step [(''customers'', PDict [(''mysql_count'', PInt m1), (''mongodb_count'', PInt n1),
                                        (''match'', PBool a)]),
                 (''products'', PDict [(''mysql_count'', PInt m2), (''mongodb_count'', PInt n2),
                                       (''match'', PBool b)]),
                 (''orders'', PDict [(''mysql_count'', PInt m3), (''mongodb_count'', PInt n3),
                                     (''match'', PBool c)]),
                 (''reviews'', PDict [(''mysql_count'', PInt m4), (''mongodb_count'', PInt n4),
                                      (''match'', PBool d)])] s
     = (Inr [(''customers'', PDict [(''mysql_count'', PInt m1), (''mongodb_count'', PInt n1),
                                    (''match'', PBool a)]),
             (''products'', PDict [(''mysql_count'', PInt m2), (''mongodb_count'', PInt n2),
                                   (''match'', PBool b)]),
             (''orders'', PDict [(''mysql_count'', PInt m3), (''mongodb_count'', PInt n3),
                                 (''match'', PBool c)]),
             (''reviews'', PDict [(''mysql_count'', PInt m4), (''mongodb_count'', PInt n4),
                                  (''match'', PBool d)]),
             (''overall_success'', PBool (a \<and> b \<and> c \<and> d))], s)"
  by (cases a; cases b; cases c; cases d)
     (simp_all add: overall_step_def get_match_def io_bind_apply io_lift_apply io_pure_apply)

lemma validation_clean_result:
  assumes "try_steps validation_steps [] s = ((None, vr), s1)"
  shows "\<exists>m1 n1 m2 n2 m3 n3 m4 n4.
           vr = [(''customers'', PDict [(''mysql_count'', PInt m1), (''mongodb_count'', PInt n1),
                                        (''match'', PBool (m1 = n1))]),
                 (''products'', PDict [(''mysql_count'', PInt m2), (''mongodb_count'', PInt n2),
                                       (''match'', PBool (m2 = n2))]),
                 (''orders'', PDict [(''mysql_count'', PInt m3), (''mongodb_count'', PInt n3),
                                     (''match'', PBool (m3 = n3))]),
                 (''reviews'', PDict [(''mysql_count'', PInt m4), (''mongodb_count'', PInt n4),
                                      (''match'', PBool (m4 = n4))]),
                 (''overall_success'', PBool (m1 = n1 \<and> m2 = n2 \<and> m3 = n3 \<and> m4 = n4))]"
proof -
  from assms [unfolded validation_steps_def]
  obtain vr1 t1 where
    c1: "count_step ''customers'' CountCustomers (\<lambda>db. int (length (tbl_Customers db))) Customers [] s
           = (Inr vr1, t1)"
    and r1: "try_steps
               [count_step ''products'' CountProducts (\<lambda>db. int (length (tbl_Products db))) Products,
                count_step ''orders'' CountOrders (\<lambda>db. int (length (tbl_Orders db))) Orders,
                count_step ''reviews'' CountProdEvals (\<lambda>db. int (length (tbl_Prod_evals db))) Reviews,
                (\<lambda>vr. io_bind sample_customer_check (\<lambda>_. io_pure vr)),
                (\<lambda>vr. io_bind sample_order_check (\<lambda>_. io_pure vr)),
                overall_step] vr1 t1 = ((None, vr), s1)"
    by (rule try_steps_clean_Cons)
  from r1 obtain vr2 t2 where
    c2: "count_step ''products'' CountProducts (\<lambda>db. int (length (tbl_Products db))) Products vr1 t1
           = (Inr vr2, t2)"
    and r2: "try_steps
               [count_step ''orders'' CountOrders (\<lambda>db. int (length (tbl_Orders db))) Orders,
                count_step ''reviews'' CountProdEvals (\<lambda>db. int (length (tbl_Prod_evals db))) Reviews,
                (\<lambda>vr. io_bind sample_customer_check (\<lambda>_. io_pure vr)),
                (\<lambda>vr. io_bind sample_order_check (\<lambda>_. io_pure vr)),
                overall_step] vr2 t2 = ((None, vr), s1)"
    by (rule try_steps_clean_Cons)
  from r2 obtain vr3 t3 where
    c3: "count_step ''orders'' CountOrders (\<lambda>db. int (length (tbl_Orders db))) Orders vr2 t2
           = (Inr vr3, t3)"
    and r3: "try_steps
               [count_step ''reviews'' CountProdEvals (\<lambda>db. int (length (tbl_Prod_evals db))) Reviews,
                (\<lambda>vr. io_bind sample_customer_check (\<lambda>_. io_pure vr)),
                (\<lambda>vr. io_bind sample_order_check (\<lambda>_. io_pure vr)),
                overall_step] vr3 t3 = ((None, vr), s1)"
    by (rule try_steps_clean_Cons)
  from r3 obtain vr4 t4 where
    c4: "count_step ''reviews'' CountProdEvals (\<lambda>db. int (length (tbl_Prod_evals db))) Reviews vr3 t3
           = (Inr vr4, t4)"
    and r4: "try_steps
               [(\<lambda>vr. io_bind sample_customer_check (\<lambda>_. io_pure vr)),
                (\<lambda>vr. io_bind sample_order_check (\<lambda>_. io_pure vr)),
                overall_step] vr4 t4 = ((None, vr), s1)"
    by (rule try_steps_clean_Cons)
  from r4 obtain vr5 t5 where
    c5: "io_bind sample_customer_check (\<lambda>_. io_pure vr4) t4 = (Inr vr5, t5)"
    and r5: "try_steps
               [(\<lambda>vr. io_bind sample_order_check (\<lambda>_. io_pure vr)), overall_step] vr5 t5
               = ((None, vr), s1)"
    by (rule try_steps_clean_Cons)
  from r5 obtain vr6 t6 where
    c6: "io_bind sample_order_check (\<lambda>_. io_pure vr5) t5 = (Inr vr6, t6)"
    and r6: "try_steps [overall_step] vr6 t6 = ((None, vr), s1)"
    by (rule try_steps_clean_Cons)
  from r6 obtain vr7 t7 where
    c7: "overall_step vr6 t6 = (Inr vr7, t7)"
    and r7: "try_steps [] vr7 t7 = ((None, vr), s1)"
    by (rule try_steps_clean_Cons)
  have e7: "vr = vr7"
    using r7 by simp
  have e6: "vr6 = vr5"
    using c6 by (rule keep_step_Inr)
  have e5: "vr5 = vr4"
    using c5 by (rule keep_step_Inr)
  obtain m1 n1 where
    v1: "vr1 = dict_set ''customers'' (PDict [(''mysql_count'', PInt m1), (''mongodb_count'', PInt n1),
                                (''match'', PBool (m1 = n1))]) []"
    using c1 by (rule count_step_Inr)
  obtain m2 n2 where
    v2: "vr2 = dict_set ''products'' (PDict [(''mysql_count'', PInt m2), (''mongodb_count'', PInt n2),
                                (''match'', PBool (m2 = n2))]) vr1"
    using c2 by (rule count_step_Inr)
  obtain m3 n3 where
    v3: "vr3 = dict_set ''orders'' (PDict [(''mysql_count'', PInt m3), (''mongodb_count'', PInt n3),
                                (''match'', PBool (m3 = n3))]) vr2"
    using c3 by (rule count_step_Inr)
  obtain m4 n4 where
    v4: "vr4 = dict_set ''reviews'' (PDict [(''mysql_count'', PInt m4), (''mongodb_count'', PInt n4),
                                (''match'', PBool (m4 = n4))]) vr3"
    using c4 by (rule count_step_Inr)
  have v6: "vr6 = [(''customers'', PDict [(''mysql_count'', PInt m1), (''mongodb_count'', PInt n1),
                                        (''match'', PBool (m1 = n1))]),
                 (''products'', PDict [(''mysql_count'', PInt m2), (''mongodb_count'', PInt n2),
                                       (''match'', PBool (m2 = n2))]),
                 (''orders'', PDict [(''mysql_count'', PInt m3), (''mongodb_count'', PInt n3),
                                     (''match'', PBool (m3 = n3))]),
                 (''reviews'', PDict [(''mysql_count'', PInt m4), (''mongodb_count'', PInt n4),
                                      (''match'', PBool (m4 = n4))])]"
    by (simp add: e6 e5 v4 v3 v2 v1)
  have "vr7 = [(''customers'', PDict [(''mysql_count'', PInt m1), (''mongodb_count'', PInt n1),
                                        (''match'', PBool (m1 = n1))]),
                 (''products'', PDict [(''mysql_count'', PInt m2), (''mongodb_count'', PInt n2),
                                       (''match'', PBool (m2 = n2))]),
                 (''orders'', PDict [(''mysql_count'', PInt m3), (''mongodb_count'', PInt n3),
                                     (''match'', PBool (m3 = n3))]),
                 (''reviews'', PDict [(''mysql_count'', PInt m4), (''mongodb_count'', PInt n4),
                                      (''match'', PBool (m4 = n4))]),
                 (''overall_success'', PBool (m1 = n1 \<and> m2 = n2 \<and> m3 = n3 \<and> m4 = n4))]"
    using c7 unfolding v6 overall_step_counts by simp
  then show ?thesis
    unfolding e7 by blast
qed

lemma count_denied_steps:
  "try_steps validation_steps [] count_denied
     = ((Some (LibraryError ''OperationFailure'' ''not authorized''), []),
        count_denied\<lparr>trace := [Execute CountCustomers, CountDocuments Customers]\<rparr>)"
  by (simp add: validation_steps_def count_step_def count_pair_def fetch_all_data_def
      mongo_count_documents_def extcall_def io_bind_def io_pure_def Let_def
      count_denied_def configured_shop_def shop_state_def blank_state_def)

lemma blank_state_steps:
  "try_steps validation_steps [] blank_state
     = ((None, [(''customers'', PDict [(''mysql_count'', PInt 0), (''mongodb_count'', PInt 0),
                                        (''match'', PBool True)]),
                 (''products'', PDict [(''mysql_count'', PInt 0), (''mongodb_count'', PInt 0),
                                       (''match'', PBool True)]),
                 (''orders'', PDict [(''mysql_count'', PInt 0), (''mongodb_count'', PInt 0),
                                     (''match'', PBool True)]),
                 (''reviews'', PDict [(''mysql_count'', PInt 0), (''mongodb_count'', PInt 0),
                                      (''match'', PBool True)]),
                 (''overall_success'', PBool True)]),
        blank_state\<lparr>trace := [Execute CountCustomers, CountDocuments Customers,
                                 Execute CountProducts, CountDocuments Products,
                                 Execute CountOrders, CountDocuments Orders,
                                 Execute CountProdEvals, CountDocuments Reviews,
                                 FindOne Customers, FindOne Orders]\<rparr>)"
  by (simp add: validation_steps_def count_step_def count_pair_def fetch_all_data_def
      mongo_count_documents_def mongo_find_one_def sample_customer_check_def
      sample_order_check_def overall_step_def get_match_def io_lift_def
      extcall_def io_bind_def io_pure_def Let_def blank_state_def empty_db_def)

text \<open>
  C7, as amended. The handler's validator never raises: it always returns its result
  dictionary. When a statement of its \<^verbatim>\<open>try\<close> block raises, the dictionary holds
  what the statements before it stored, the message of the exception under
  \<^verbatim>\<open>error\<close> and \<^verbatim>\<open>False\<close> under \<^verbatim>\<open>overall_success\<close>, and the
  error is logged. When none raises, there is no \<^verbatim>\<open>error\<close> entry and
  \<^verbatim>\<open>overall_success\<close> is the conjunction of the \<^verbatim>\<open>match\<close> values of the
  four collections.
\<close>

theorem validator_records_errors:
  "(\<exists>vr s'. validate_migration s = (Inr (PDict vr), s'))
   \<and> (try_steps validation_steps [] s = ((Some e, vr0), s1) \<longrightarrow>
        (\<exists>vr. validate_migration s
                 = (Inr (PDict vr),
                    s1\<lparr>logged := logged s1 @ [(ERROR, validation_error_prefix @ exn_str e)]\<rparr>)
             \<and> dict_get ''error'' vr = Some (PStr (exn_str e))
             \<and> dict_get ''overall_success'' vr = Some (PBool False)))
   \<and> (try_steps validation_steps [] s = ((None, vr0), s1) \<longrightarrow>
        (\<exists>a b c d. validate_migration s = (Inr (PDict vr0), s1)
             \<and> dict_get ''error'' vr0 = None
             \<and> (\<exists>entry. dict_get ''customers'' vr0 = Some entry
                    \<and> doc_field ''match'' entry = Some (PBool a))
             \<and> (\<exists>entry. dict_get ''products'' vr0 = Some entry
                    \<and> doc_field ''match'' entry = Some (PBool b))
             \<and> (\<exists>entry. dict_get ''orders'' vr0 = Some entry
                    \<and> doc_field ''match'' entry = Some (PBool c))
             \<and> (\<exists>entry. dict_get ''reviews'' vr0 = Some entry
                    \<and> doc_field ''match'' entry = Some (PBool d))
             \<and> dict_get ''overall_success'' vr0 = Some (PBool (a \<and> b \<and> c \<and> d))))"
proof (intro conjI impI)
  show "\<exists>vr s'. validate_migration s = (Inr (PDict vr), s')"
    by (rule validate_never_raises)
next
  assume "try_steps validation_steps [] s = ((Some e, vr0), s1)"
  then have "validate_migration s
           = (Inr (PDict (dict_set ''overall_success'' (PBool False)
                           (dict_set ''error'' (PStr (exn_str e)) vr0))),
              s1\<lparr>logged := logged s1 @ [(ERROR, validation_error_prefix @ exn_str e)]\<rparr>)"
    by (rule validate_error)
  moreover have "dict_get ''error'' (dict_set ''overall_success'' (PBool False)
                           (dict_set ''error'' (PStr (exn_str e)) vr0)) = Some (PStr (exn_str e))"
    by (simp add: dict_get_set_other dict_get_set_same)
  moreover have "dict_get ''overall_success'' (dict_set ''overall_success'' (PBool False)
                           (dict_set ''error'' (PStr (exn_str e)) vr0)) = Some (PBool False)"
    by (rule dict_get_set_same)
  ultimately show "\<exists>vr. validate_migration s
                 = (Inr (PDict vr),
                    s1\<lparr>logged := logged s1 @ [(ERROR, validation_error_prefix @ exn_str e)]\<rparr>)
             \<and> dict_get ''error'' vr = Some (PStr (exn_str e))
             \<and> dict_get ''overall_success'' vr = Some (PBool False)"
    by blast
next
  assume clean: "try_steps validation_steps [] s = ((None, vr0), s1)"
  then obtain m1 n1 m2 n2 m3 n3 m4 n4 :: int where
    vr0: "vr0 = [(''customers'', PDict [(''mysql_count'', PInt m1), (''mongodb_count'', PInt n1),
                                        (''match'', PBool (m1 = n1))]),
                 (''products'', PDict [(''mysql_count'', PInt m2), (''mongodb_count'', PInt n2),
                                       (''match'', PBool (m2 = n2))]),
                 (''orders'', PDict [(''mysql_count'', PInt m3), (''mongodb_count'', PInt n3),
                                     (''match'', PBool (m3 = n3))]),
                 (''reviews'', PDict [(''mysql_count'', PInt m4), (''mongodb_count'', PInt n4),
                                      (''match'', PBool (m4 = n4))]),
                 (''overall_success'', PBool (m1 = n1 \<and> m2 = n2 \<and> m3 = n3 \<and> m4 = n4))]"
    using validation_clean_result by blast
  have run: "validate_migration s = (Inr (PDict vr0), s1)"
    using clean by (rule validate_clean)
  show "\<exists>a b c d. validate_migration s = (Inr (PDict vr0), s1)
             \<and> dict_get ''error'' vr0 = None
             \<and> (\<exists>entry. dict_get ''customers'' vr0 = Some entry
                    \<and> doc_field ''match'' entry = Some (PBool a))
             \<and> (\<exists>entry. dict_get ''products'' vr0 = Some entry
                    \<and> doc_field ''match'' entry = Some (PBool b))
             \<and> (\<exists>entry. dict_get ''orders'' vr0 = Some entry
                    \<and> doc_field ''match'' entry = Some (PBool c))
             \<and> (\<exists>entry. dict_get ''reviews'' vr0 = Some entry
                    \<and> doc_field ''match'' entry = Some (PBool d))
             \<and> dict_get ''overall_success'' vr0 = Some (PBool (a \<and> b \<and> c \<and> d))"
    by (rule exI [of _ "m1 = n1"], rule exI [of _ "m2 = n2"], rule exI [of _ "m3 = n3"],
        rule exI [of _ "m4 = n4"]) (simp add: run vr0 doc_field_def)
qed

theorem validator_records_errors_witness:
  "(\<exists>vr s'. validate_migration count_denied = (Inr (PDict vr), s')
       \<and> dict_get ''error'' vr = Some (PStr ''not authorized'')
       \<and> dict_get ''overall_success'' vr = Some (PBool False))
   \<and> (\<exists>vr s'. validate_migration blank_state = (Inr (PDict vr), s')
       \<and> dict_get ''error'' vr = None
       \<and> dict_get ''overall_success'' vr = Some (PBool True))"
proof -
  note thm1 = validator_records_errors
    [of count_denied "LibraryError ''OperationFailure'' ''not authorized''" "[]"
        "count_denied\<lparr>trace := [Execute CountCustomers, CountDocuments Customers]\<rparr>"]
  note thm2 = validator_records_errors
    [of blank_state "ValueError []"
        "[(''customers'', PDict [(''mysql_count'', PInt 0), (''mongodb_count'', PInt 0),
                                        (''match'', PBool True)]),
                 (''products'', PDict [(''mysql_count'', PInt 0), (''mongodb_count'', PInt 0),
                                       (''match'', PBool True)]),
                 (''orders'', PDict [(''mysql_count'', PInt 0), (''mongodb_count'', PInt 0),
                                     (''match'', PBool True)]),
                 (''reviews'', PDict [(''mysql_count'', PInt 0), (''mongodb_count'', PInt 0),
                                      (''match'', PBool True)]),
                 (''overall_success'', PBool True)]"
        "blank_state\<lparr>trace := [Execute CountCustomers, CountDocuments Customers,
                                 Execute CountProducts, CountDocuments Products,
                                 Execute CountOrders, CountDocuments Orders,
                                 Execute CountProdEvals, CountDocuments Reviews,
                                 FindOne Customers, FindOne Orders]\<rparr>"]
  have a: "\<exists>vr s'. validate_migration count_denied = (Inr (PDict vr), s')
       \<and> dict_get ''error'' vr = Some (PStr ''not authorized'')
       \<and> dict_get ''overall_success'' vr = Some (PBool False)"
    using thm1 count_denied_steps by auto
  have b: "\<exists>vr s'. validate_migration blank_state = (Inr (PDict vr), s')
       \<and> dict_get ''error'' vr = None
       \<and> dict_get ''overall_success'' vr = Some (PBool True)"
    using thm2 blank_state_steps by auto
  show ?thesis
    using a b by (rule conjI)
qed

text \<open>
  The standalone validator has no \<^verbatim>\<open>try\<close>: an exception of one of its calls leaves
  it as an exception, and it returns no result.
\<close>

theorem standalone_validator_propagates:
  "validate_migration_standalone count_denied
     = (Inl (LibraryError ''OperationFailure'' ''not authorized''),
        count_denied\<lparr>trace := [Execute CountCustomers, CountDocuments Customers]\<rparr>)"
  by (simp add: validate_migration_standalone_def count_pair_def fetch_all_data_def
      mongo_count_documents_def extcall_def io_bind_def io_pure_def Let_def
      count_denied_def configured_shop_def shop_state_def blank_state_def)

lemma ok_traced: "index_faults_only s \<Longrightarrow> index_faults_only (s\<lparr>trace := t\<rparr>)"
  by (simp add: index_faults_only_def)

lemma count_documents_ok:
  "index_faults_only s \<Longrightarrow>
     mongo_count_documents c s
       = (Inr (int (length (mongo s c))), s\<lparr>trace := trace s @ [CountDocuments c]\<rparr>)"
  by (simp add: mongo_count_documents_def extcall_ok)

lemma count_step_ok:
  assumes "index_faults_only s"
  shows "count_step key q rows c vr s
           = (Inr (dict_set key
                    (PDict [(''mysql_count'', PInt (rows (mysql s))),
                            (''mongodb_count'', PInt (int (length (mongo s c)))),
                            (''match'', PBool (rows (mysql s) = int (length (mongo s c))))]) vr),
              s\<lparr>trace := trace s @ [Execute q, CountDocuments c]\<rparr>)"
  by (simp add: count_step_def count_pair_def io_bind_apply io_pure_apply fetch_ok [OF assms]
      count_documents_ok [OF ok_traced [OF assms]])

lemma tail_steps:
  "\<exists>r vr' s'.
      try_steps [(\<lambda>vr. io_bind sample_customer_check (\<lambda>_. io_pure vr)),
                 (\<lambda>vr. io_bind sample_order_check (\<lambda>_. io_pure vr)),
                 overall_step]
        [(''customers'', PDict [(''mysql_count'', PInt m1), (''mongodb_count'', PInt n1),
                                (''match'', PBool a)]),
         (''products'', PDict [(''mysql_count'', PInt m2), (''mongodb_count'', PInt n2),
                               (''match'', PBool b)]),
         (''orders'', PDict [(''mysql_count'', PInt m3), (''mongodb_count'', PInt n3),
                             (''match'', PBool c)]),
         (''reviews'', PDict [(''mysql_count'', PInt m4), (''mongodb_count'', PInt n4),
                              (''match'', PBool d)])] t
        = ((r, vr'), s')
    \<and> dict_get ''customers'' vr' = Some (PDict [(''mysql_count'', PInt m1),
          (''mongodb_count'', PInt n1), (''match'', PBool a)])
    \<and> dict_get ''products'' vr' = Some (PDict [(''mysql_count'', PInt m2),
          (''mongodb_count'', PInt n2), (''match'', PBool b)])
    \<and> dict_get ''orders'' vr' = Some (PDict [(''mysql_count'', PInt m3),
          (''mongodb_count'', PInt n3), (''match'', PBool c)])
    \<and> dict_get ''reviews'' vr' = Some (PDict [(''mysql_count'', PInt m4),
          (''mongodb_count'', PInt n4), (''match'', PBool d)])"
proof (cases "sample_customer_check t")
  case (Pair r1 t1)
  show ?thesis
  proof (cases r1)
    case (Inl e)
    then show ?thesis using Pair by (simp add: io_bind_apply)
  next
    case (Inr u)
    note first = this
    show ?thesis
    proof (cases "sample_order_check t1")
      case (Pair r2 t2)
      note second = this
      show ?thesis
      proof (cases r2)
        case (Inl e)
        then show ?thesis
          using \<open>sample_customer_check t = (r1, t1)\<close> first second
          by (simp add: io_bind_apply io_pure_apply)
      next
        case (Inr u')
        then show ?thesis
          using \<open>sample_customer_check t = (r1, t1)\<close> first second
          by (simp add: io_bind_apply io_pure_apply overall_step_counts)
      qed
    qed
  qed
qed

lemma validate_counts:
  assumes ok: "index_faults_only s"
  shows "\<exists>vr s'. validate_migration s = (Inr (PDict vr), s')
    \<and> dict_get ''customers'' vr
        = Some (PDict [(''mysql_count'', PInt (int (length (tbl_Customers (mysql s))))),
                       (''mongodb_count'', PInt (int (length (mongo s Customers)))),
                       (''match'', PBool (length (tbl_Customers (mysql s)) = length (mongo s Customers)))])
    \<and> dict_get ''products'' vr
        = Some (PDict [(''mysql_count'', PInt (int (length (tbl_Products (mysql s))))),
                       (''mongodb_count'', PInt (int (length (mongo s Products)))),
                       (''match'', PBool (length (tbl_Products (mysql s)) = length (mongo s Products)))])
    \<and> dict_get ''orders'' vr
        = Some (PDict [(''mysql_count'', PInt (int (length (tbl_Orders (mysql s))))),
                       (''mongodb_count'', PInt (int (length (mongo s Orders)))),
                       (''match'', PBool (length (tbl_Orders (mysql s)) = length (mongo s Orders)))])
    \<and> dict_get ''reviews'' vr
        = Some (PDict [(''mysql_count'', PInt (int (length (tbl_Prod_evals (mysql s))))),
                       (''mongodb_count'', PInt (int (length (mongo s Reviews)))),
                       (''match'', PBool (length (tbl_Prod_evals (mysql s)) = length (mongo s Reviews)))])"
proof -
  let ?E1 = "PDict [(''mysql_count'', PInt (int (length (tbl_Customers (mysql s))))),
                       (''mongodb_count'', PInt (int (length (mongo s Customers)))),
                       (''match'', PBool (length (tbl_Customers (mysql s)) = length (mongo s Customers)))]"
  let ?E2 = "PDict [(''mysql_count'', PInt (int (length (tbl_Products (mysql s))))),
                       (''mongodb_count'', PInt (int (length (mongo s Products)))),
                       (''match'', PBool (length (tbl_Products (mysql s)) = length (mongo s Products)))]"
  let ?E3 = "PDict [(''mysql_count'', PInt (int (length (tbl_Orders (mysql s))))),
                       (''mongodb_count'', PInt (int (length (mongo s Orders)))),
                       (''match'', PBool (length (tbl_Orders (mysql s)) = length (mongo s Orders)))]"
  let ?E4 = "PDict [(''mysql_count'', PInt (int (length (tbl_Prod_evals (mysql s))))),
                       (''mongodb_count'', PInt (int (length (mongo s Reviews)))),
                       (''match'', PBool (length (tbl_Prod_evals (mysql s)) = length (mongo s Reviews)))]"
  let ?vr4 = "[(''customers'', ?E1), (''products'', ?E2), (''orders'', ?E3), (''reviews'', ?E4)]"
  let ?t4 = "s\<lparr>trace := trace s @ [Execute CountCustomers, CountDocuments Customers,
                                 Execute CountProducts, CountDocuments Products,
                                 Execute CountOrders, CountDocuments Orders,
                                 Execute CountProdEvals, CountDocuments Reviews]\<rparr>"
  have four: "try_steps validation_steps [] s
                = try_steps [(\<lambda>vr. io_bind sample_customer_check (\<lambda>_. io_pure vr)),
                             (\<lambda>vr. io_bind sample_order_check (\<lambda>_. io_pure vr)),
                             overall_step] ?vr4 ?t4"
    by (simp add: validation_steps_def count_step_ok ok ok_traced)
  obtain r vr' s' where
    tail: "try_steps validation_steps [] s = ((r, vr'), s')"
    and g1: "dict_get ''customers'' vr' = Some ?E1"
    and g2: "dict_get ''products'' vr' = Some ?E2"
    and g3: "dict_get ''orders'' vr' = Some ?E3"
    and g4: "dict_get ''reviews'' vr' = Some ?E4"
    unfolding four using tail_steps [of _ _ _ _ _ _ _ _ _ _ _ _ ?t4] by blast
  show ?thesis
  proof (cases r)
    case None
    then have "validate_migration s = (Inr (PDict vr'), s')"
      using tail validate_clean by simp
    then show ?thesis
      using g1 g2 g3 g4 by blast
  next
    case (Some e)
    then have "validate_migration s
           = (Inr (PDict (dict_set ''overall_success'' (PBool False)
                           (dict_set ''error'' (PStr (exn_str e)) vr'))),
              s'\<lparr>logged := logged s' @ [(ERROR, validation_error_prefix @ exn_str e)]\<rparr>)"
      using tail validate_error by simp
    moreover have "dict_get ''customers'' (dict_set ''overall_success'' (PBool False)
                           (dict_set ''error'' (PStr (exn_str e)) vr')) = Some ?E1"
      by (simp add: dict_get_set_other g1)
    moreover have "dict_get ''products'' (dict_set ''overall_success'' (PBool False)
                           (dict_set ''error'' (PStr (exn_str e)) vr')) = Some ?E2"
      by (simp add: dict_get_set_other g2)
    moreover have "dict_get ''orders'' (dict_set ''overall_success'' (PBool False)
                           (dict_set ''error'' (PStr (exn_str e)) vr')) = Some ?E3"
      by (simp add: dict_get_set_other g3)
    moreover have "dict_get ''reviews'' (dict_set ''overall_success'' (PBool False)
                           (dict_set ''error'' (PStr (exn_str e)) vr')) = Some ?E4"
      by (simp add: dict_get_set_other g4)
    ultimately show ?thesis
      by blast
  qed
qed

section \<open>Empty source tables\<close>

lemma select_reviews_empty: "tbl_Prod_evals db = [] \<Longrightarrow> select_reviews db = []"
  by (simp add: select_reviews_def)

lemma migrate_products_empty:
  assumes "index_faults_only s" and "tbl_Products (mysql s) = []"
  shows "migrate_products_collection s
           = (Inr (PDict [(''count'', PInt 0), (''collection_name'', PStr ''Products''), (''mysql_records'', PInt 0), (''mongodb_documents'', PInt 0)]),
              s\<lparr>mongo := (mongo s)(Products := []), trace := trace s @ [Drop Products, Execute SelectProducts]\<rparr>)"
    and "migrate_Products_collection s
           = (Inr (),
              s\<lparr>mongo := (mongo s)(Products := []), trace := trace s @ [Drop Products, Execute SelectProducts]\<rparr>)"
  unfolding migrate_products_collection_def migrate_Products_collection_def
    fetch_customers_after_drop [OF assms(1)]
  using assms(2) by (simp_all add: io_bind_apply io_pure_apply )

lemma migrate_customers_empty:
  assumes "index_faults_only s" and "tbl_Customers (mysql s) = []"
  shows "migrate_customers_collection s
           = (Inr (PDict [(''count'', PInt 0), (''collection_name'', PStr ''Customers''), (''mysql_records'', PInt 0), (''mongodb_documents'', PInt 0), (''total_cart_items'', PInt 0)]),
              s\<lparr>mongo := (mongo s)(Customers := []), trace := trace s @ [Drop Customers, Execute SelectCustomers]\<rparr>)"
    and "migrate_Customers_collection s
           = (Inr (),
              s\<lparr>mongo := (mongo s)(Customers := []), trace := trace s @ [Drop Customers, Execute SelectCustomers]\<rparr>)"
  unfolding migrate_customers_collection_def migrate_Customers_collection_def
    fetch_customers_after_drop [OF assms(1)]
  using assms(2) by (simp_all add: io_bind_apply io_pure_apply )

lemma migrate_orders_empty:
  assumes "index_faults_only s" and "tbl_Orders (mysql s) = []"
  shows "migrate_orders_collection s
           = (Inr (PDict [(''count'', PInt 0), (''collection_name'', PStr ''Orders''), (''mysql_records'', PInt 0), (''mongodb_documents'', PInt 0), (''total_order_items'', PInt 0)]),
              s\<lparr>mongo := (mongo s)(Orders := []), trace := trace s @ [Drop Orders, Execute SelectOrders]\<rparr>)"
    and "migrate_Orders_collection s
           = (Inr (),
              s\<lparr>mongo := (mongo s)(Orders := []), trace := trace s @ [Drop Orders, Execute SelectOrders]\<rparr>)"
  unfolding migrate_orders_collection_def migrate_Orders_collection_def
    fetch_customers_after_drop [OF assms(1)]
  using assms(2) by (simp_all add: io_bind_apply io_pure_apply )

lemma migrate_reviews_empty:
  assumes "index_faults_only s" and "tbl_Prod_evals (mysql s) = []"
  shows "migrate_reviews_collection s
           = (Inr (PDict [(''count'', PInt 0), (''collection_name'', PStr ''Reviews''), (''mysql_records'', PInt 0), (''mongodb_documents'', PInt 0)]),
              s\<lparr>mongo := (mongo s)(Reviews := []), trace := trace s @ [Drop Reviews, Execute SelectReviews]\<rparr>)"
    and "migrate_Reviews_collection s
           = (Inr (),
              s\<lparr>mongo := (mongo s)(Reviews := []), trace := trace s @ [Drop Reviews, Execute SelectReviews]\<rparr>)"
  unfolding migrate_reviews_collection_def migrate_Reviews_collection_def
    fetch_customers_after_drop [OF assms(1)]
  using assms(2) by (simp_all add: io_bind_apply io_pure_apply select_reviews_empty)

lemma empty_products:
  assumes ok: "index_faults_only s" and e: "tbl_Products (mysql s) = []"
  shows "(\<exists>r. migrate_products_collection s = (Inr (PDict r), s\<lparr>mongo := (mongo s)(Products := []), trace := trace s @ [Drop Products, Execute SelectProducts]\<rparr>)
            \<and> dict_get ''count'' r = Some (PInt 0))
        \<and> migrate_Products_collection s = (Inr (), s\<lparr>mongo := (mongo s)(Products := []), trace := trace s @ [Drop Products, Execute SelectProducts]\<rparr>)
        \<and> (\<exists>vr s'. validate_migration (s\<lparr>mongo := (mongo s)(Products := []), trace := trace s @ [Drop Products, Execute SelectProducts]\<rparr>) = (Inr (PDict vr), s')
            \<and> dict_get ''products'' vr = Some (PDict [(''mysql_count'', PInt 0), (''mongodb_count'', PInt 0), (''match'', PBool True)]))"
proof -
  let ?S = "s\<lparr>mongo := (mongo s)(Products := []), trace := trace s @ [Drop Products, Execute SelectProducts]\<rparr>"
  have okS: "index_faults_only ?S"
    using ok by (simp add: index_faults_only_def)
  obtain vr s' where
    v: "validate_migration ?S = (Inr (PDict vr), s')"
    and g: "dict_get ''products'' vr
              = Some (PDict [(''mysql_count'', PInt (int (length (tbl_Products (mysql ?S))))),
                             (''mongodb_count'', PInt (int (length (mongo ?S Products)))),
                             (''match'', PBool (length (tbl_Products (mysql ?S)) = length (mongo ?S Products)))])"
    using validate_counts [OF okS] by blast
  have g0: "dict_get ''products'' vr = Some (PDict [(''mysql_count'', PInt 0), (''mongodb_count'', PInt 0), (''match'', PBool True)])"
    using g e by simp
  have r1: "\<exists>r. migrate_products_collection s = (Inr (PDict r), ?S)
            \<and> dict_get ''count'' r = Some (PInt 0)"
    by (simp add: migrate_products_empty(1) [OF ok e])
  show ?thesis
    using r1 migrate_products_empty(2) [OF ok e] v g0 by blast
qed

lemma empty_customers:
  assumes ok: "index_faults_only s" and e: "tbl_Customers (mysql s) = []"
  shows "(\<exists>r. migrate_customers_collection s = (Inr (PDict r), s\<lparr>mongo := (mongo s)(Customers := []), trace := trace s @ [Drop Customers, Execute SelectCustomers]\<rparr>)
            \<and> dict_get ''count'' r = Some (PInt 0))
        \<and> migrate_Customers_collection s = (Inr (), s\<lparr>mongo := (mongo s)(Customers := []), trace := trace s @ [Drop Customers, Execute SelectCustomers]\<rparr>)
        \<and> (\<exists>vr s'. validate_migration (s\<lparr>mongo := (mongo s)(Customers := []), trace := trace s @ [Drop Customers, Execute SelectCustomers]\<rparr>) = (Inr (PDict vr), s')
            \<and> dict_get ''customers'' vr = Some (PDict [(''mysql_count'', PInt 0), (''mongodb_count'', PInt 0), (''match'', PBool True)]))"
proof -
  let ?S = "s\<lparr>mongo := (mongo s)(Customers := []), trace := trace s @ [Drop Customers, Execute SelectCustomers]\<rparr>"
  have okS: "index_faults_only ?S"
    using ok by (simp add: index_faults_only_def)
  obtain vr s' where
    v: "validate_migration ?S = (Inr (PDict vr), s')"
    and g: "dict_get ''customers'' vr
              = Some (PDict [(''mysql_count'', PInt (int (length (tbl_Customers (mysql ?S))))),
                             (''mongodb_count'', PInt (int (length (mongo ?S Customers)))),
                             (''match'', PBool (length (tbl_Customers (mysql ?S)) = length (mongo ?S Customers)))])"
    using validate_counts [OF okS] by blast
  have g0: "dict_get ''customers'' vr = Some (PDict [(''mysql_count'', PInt 0), (''mongodb_count'', PInt 0), (''match'', PBool True)])"
    using g e by simp
  have r1: "\<exists>r. migrate_customers_collection s = (Inr (PDict r), ?S)
            \<and> dict_get ''count'' r = Some (PInt 0)"
    by (simp add: migrate_customers_empty(1) [OF ok e])
  show ?thesis
    using r1 migrate_customers_empty(2) [OF ok e] v g0 by blast
qed

lemma empty_orders:
  assumes ok: "index_faults_only s" and e: "tbl_Orders (mysql s) = []"
  shows "(\<exists>r. migrate_orders_collection s = (Inr (PDict r), s\<lparr>mongo := (mongo s)(Orders := []), trace := trace s @ [Drop Orders, Execute SelectOrders]\<rparr>)
            \<and> dict_get ''count'' r = Some (PInt 0))
        \<and> migrate_Orders_collection s = (Inr (), s\<lparr>mongo := (mongo s)(Orders := []), trace := trace s @ [Drop Orders, Execute SelectOrders]\<rparr>)
        \<and> (\<exists>vr s'. validate_migration (s\<lparr>mongo := (mongo s)(Orders := []), trace := trace s @ [Drop Orders, Execute SelectOrders]\<rparr>) = (Inr (PDict vr), s')
            \<and> dict_get ''orders'' vr = Some (PDict [(''mysql_count'', PInt 0), (''mongodb_count'', PInt 0), (''match'', PBool True)]))"
proof -
  let ?S = "s\<lparr>mongo := (mongo s)(Orders := []), trace := trace s @ [Drop Orders, Execute SelectOrders]\<rparr>"
  have okS: "index_faults_only ?S"
    using ok by (simp add: index_faults_only_def)
  obtain vr s' where
    v: "validate_migration ?S = (Inr (PDict vr), s')"
    and g: "dict_get ''orders'' vr
              = Some (PDict [(''mysql_count'', PInt (int (length (tbl_Orders (mysql ?S))))),
                             (''mongodb_count'', PInt (int (length (mongo ?S Orders)))),
                             (''match'', PBool (length (tbl_Orders (mysql ?S)) = length (mongo ?S Orders)))])"
    using validate_counts [OF okS] by blast
  have g0: "dict_get ''orders'' vr = Some (PDict [(''mysql_count'', PInt 0), (''mongodb_count'', PInt 0), (''match'', PBool True)])"
    using g e by simp
  have r1: "\<exists>r. migrate_orders_collection s = (Inr (PDict r), ?S)
            \<and> dict_get ''count'' r = Some (PInt 0)"
    by (simp add: migrate_orders_empty(1) [OF ok e])
  show ?thesis
    using r1 migrate_orders_empty(2) [OF ok e] v g0 by blast
qed

lemma empty_reviews:
  assumes ok: "index_faults_only s" and e: "tbl_Prod_evals (mysql s) = []"
  shows "(\<exists>r. migrate_reviews_collection s = (Inr (PDict r), s\<lparr>mongo := (mongo s)(Reviews := []), trace := trace s @ [Drop Reviews, Execute SelectReviews]\<rparr>)
            \<and> dict_get ''count'' r = Some (PInt 0))
        \<and> migrate_Reviews_collection s = (Inr (), s\<lparr>mongo := (mongo s)(Reviews := []), trace := trace s @ [Drop Reviews, Execute SelectReviews]\<rparr>)
        \<and> (\<exists>vr s'. validate_migration (s\<lparr>mongo := (mongo s)(Reviews := []), trace := trace s @ [Drop Reviews, Execute SelectReviews]\<rparr>) = (Inr (PDict vr), s')
            \<and> dict_get ''reviews'' vr = Some (PDict [(''mysql_count'', PInt 0), (''mongodb_count'', PInt 0), (''match'', PBool True)]))"
proof -
  let ?S = "s\<lparr>mongo := (mongo s)(Reviews := []), trace := trace s @ [Drop Reviews, Execute SelectReviews]\<rparr>"
  have okS: "index_faults_only ?S"
    using ok by (simp add: index_faults_only_def)
  obtain vr s' where
    v: "validate_migration ?S = (Inr (PDict vr), s')"
    and g: "dict_get ''reviews'' vr
              = Some (PDict [(''mysql_count'', PInt (int (length (tbl_Prod_evals (mysql ?S))))),
                             (''mongodb_count'', PInt (int (length (mongo ?S Reviews)))),
                             (''match'', PBool (length (tbl_Prod_evals (mysql ?S)) = length (mongo ?S Reviews)))])"
    using validate_counts [OF okS] by blast
  have g0: "dict_get ''reviews'' vr = Some (PDict [(''mysql_count'', PInt 0), (''mongodb_count'', PInt 0), (''match'', PBool True)])"
    using g e by simp
  have r1: "\<exists>r. migrate_reviews_collection s = (Inr (PDict r), ?S)
            \<and> dict_get ''count'' r = Some (PInt 0)"
    by (simp add: migrate_reviews_empty(1) [OF ok e])
  show ?thesis
    using r1 migrate_reviews_empty(2) [OF ok e] v g0 by blast
qed

text \<open>
  C5. In a run in which no call to the stores raises, when the source table of an entity
  has no row (for the reviews, the table of product evaluations), the loader of that
  entity, in either script, makes the drop call and the fetch and no insert call, and
  returns normally with a count of zero, leaving the collection empty; and the handler's
  validator, run on that state, reports for that collection the counts 0 and 0 and the
  match \<^verbatim>\<open>True\<close>.
\<close>

theorem empty_source_table:
  assumes "index_faults_only s"
  shows "(tbl_Products (mysql s) = [] \<longrightarrow>
        (\<exists>r. migrate_products_collection s = (Inr (PDict r), s\<lparr>mongo := (mongo s)(Products := []), trace := trace s @ [Drop Products, Execute SelectProducts]\<rparr>)
            \<and> dict_get ''count'' r = Some (PInt 0))
        \<and> migrate_Products_collection s = (Inr (), s\<lparr>mongo := (mongo s)(Products := []), trace := trace s @ [Drop Products, Execute SelectProducts]\<rparr>)
        \<and> (\<exists>vr s'. validate_migration (s\<lparr>mongo := (mongo s)(Products := []), trace := trace s @ [Drop Products, Execute SelectProducts]\<rparr>) = (Inr (PDict vr), s')
            \<and> dict_get ''products'' vr = Some (PDict [(''mysql_count'', PInt 0), (''mongodb_count'', PInt 0), (''match'', PBool True)])))
     \<and> (tbl_Customers (mysql s) = [] \<longrightarrow>
        (\<exists>r. migrate_customers_collection s = (Inr (PDict r), s\<lparr>mongo := (mongo s)(Customers := []), trace := trace s @ [Drop Customers, Execute SelectCustomers]\<rparr>)
            \<and> dict_get ''count'' r = Some (PInt 0))
        \<and> migrate_Customers_collection s = (Inr (), s\<lparr>mongo := (mongo s)(Customers := []), trace := trace s @ [Drop Customers, Execute SelectCustomers]\<rparr>)
        \<and> (\<exists>vr s'. validate_migration (s\<lparr>mongo := (mongo s)(Customers := []), trace := trace s @ [Drop Customers, Execute SelectCustomers]\<rparr>) = (Inr (PDict vr), s')
            \<and> dict_get ''customers'' vr = Some (PDict [(''mysql_count'', PInt 0), (''mongodb_count'', PInt 0), (''match'', PBool True)])))
     \<and> (tbl_Orders (mysql s) = [] \<longrightarrow>
        (\<exists>r. migrate_orders_collection s = (Inr (PDict r), s\<lparr>mongo := (mongo s)(Orders := []), trace := trace s @ [Drop Orders, Execute SelectOrders]\<rparr>)
            \<and> dict_get ''count'' r = Some (PInt 0))
        \<and> migrate_Orders_collection s = (Inr (), s\<lparr>mongo := (mongo s)(Orders := []), trace := trace s @ [Drop Orders, Execute SelectOrders]\<rparr>)
        \<and> (\<exists>vr s'. validate_migration (s\<lparr>mongo := (mongo s)(Orders := []), trace := trace s @ [Drop Orders, Execute SelectOrders]\<rparr>) = (Inr (PDict vr), s')
            \<and> dict_get ''orders'' vr = Some (PDict [(''mysql_count'', PInt 0), (''mongodb_count'', PInt 0), (''match'', PBool True)])))
     \<and> (tbl_Prod_evals (mysql s) = [] \<longrightarrow>
        (\<exists>r. migrate_reviews_collection s = (Inr (PDict r), s\<lparr>mongo := (mongo s)(Reviews := []), trace := trace s @ [Drop Reviews, Execute SelectReviews]\<rparr>)
            \<and> dict_get ''count'' r = Some (PInt 0))
        \<and> migrate_Reviews_collection s = (Inr (), s\<lparr>mongo := (mongo s)(Reviews := []), trace := trace s @ [Drop Reviews, Execute SelectReviews]\<rparr>)
        \<and> (\<exists>vr s'. validate_migration (s\<lparr>mongo := (mongo s)(Reviews := []), trace := trace s @ [Drop Reviews, Execute SelectReviews]\<rparr>) = (Inr (PDict vr), s')
            \<and> dict_get ''reviews'' vr = Some (PDict [(''mysql_count'', PInt 0), (''mongodb_count'', PInt 0), (''match'', PBool True)])))"
  by (rule conjI, rule impI, erule empty_products [OF assms],
      rule conjI, rule impI, erule empty_customers [OF assms],
      rule conjI, rule impI, erule empty_orders [OF assms],
      rule impI, erule empty_reviews [OF assms])

theorem empty_source_table_witness:
  "migrate_Products_collection blank_state = (Inr (), blank_state\<lparr>mongo := (mongo blank_state)(Products := []), trace := trace blank_state @ [Drop Products, Execute SelectProducts]\<rparr>)
   \<and> (\<exists>vr s'. validate_migration (blank_state\<lparr>mongo := (mongo blank_state)(Products := []), trace := trace blank_state @ [Drop Products, Execute SelectProducts]\<rparr>) = (Inr (PDict vr), s')
            \<and> dict_get ''products'' vr = Some (PDict [(''mysql_count'', PInt 0), (''mongodb_count'', PInt 0), (''match'', PBool True)]))
   \<and> migrate_Customers_collection blank_state = (Inr (), blank_state\<lparr>mongo := (mongo blank_state)(Customers := []), trace := trace blank_state @ [Drop Customers, Execute SelectCustomers]\<rparr>)
   \<and> (\<exists>vr s'. validate_migration (blank_state\<lparr>mongo := (mongo blank_state)(Customers := []), trace := trace blank_state @ [Drop Customers, Execute SelectCustomers]\<rparr>) = (Inr (PDict vr), s')
            \<and> dict_get ''customers'' vr = Some (PDict [(''mysql_count'', PInt 0), (''mongodb_count'', PInt 0), (''match'', PBool True)]))
   \<and> migrate_Orders_collection blank_state = (Inr (), blank_state\<lparr>mongo := (mongo blank_state)(Orders := []), trace := trace blank_state @ [Drop Orders, Execute SelectOrders]\<rparr>)
   \<and> (\<exists>vr s'. validate_migration (blank_state\<lparr>mongo := (mongo blank_state)(Orders := []), trace := trace blank_state @ [Drop Orders, Execute SelectOrders]\<rparr>) = (Inr (PDict vr), s')
            \<and> dict_get ''orders'' vr = Some (PDict [(''mysql_count'', PInt 0), (''mongodb_count'', PInt 0), (''match'', PBool True)]))
   \<and> migrate_Reviews_collection blank_state = (Inr (), blank_state\<lparr>mongo := (mongo blank_state)(Reviews := []), trace := trace blank_state @ [Drop Reviews, Execute SelectReviews]\<rparr>)
   \<and> (\<exists>vr s'. validate_migration (blank_state\<lparr>mongo := (mongo blank_state)(Reviews := []), trace := trace blank_state @ [Drop Reviews, Execute SelectReviews]\<rparr>) = (Inr (PDict vr), s')
            \<and> dict_get ''reviews'' vr = Some (PDict [(''mysql_count'', PInt 0), (''mongodb_count'', PInt 0), (''match'', PBool True)]))"
proof -
  have ok: "index_faults_only blank_state"
    by (simp add: index_faults_only_def blank_state_def)
  have e: "tbl_Products (mysql blank_state) = []" "tbl_Customers (mysql blank_state) = []"
    "tbl_Orders (mysql blank_state) = []" "tbl_Prod_evals (mysql blank_state) = []"
    by (simp_all add: blank_state_def empty_db_def)
  show ?thesis
    using empty_source_table [OF ok] e by blast
qed

section \<open>What the steps leave unchanged\<close>

lemma io_keepsI: "(\<And>s. g (snd (m s)) = g s) \<Longrightarrow> io_keeps g m"
  by (simp add: io_keeps_def)

lemma io_keepsD: "io_keeps g m \<Longrightarrow> g (snd (m s)) = g s"
  by (simp add: io_keeps_def)

lemma io_keepsD2: "io_keeps g m \<Longrightarrow> m s = (r, s') \<Longrightarrow> g s' = g s"
  using io_keepsD [of g m s] by simp












lemma keeps_case_sum:
  assumes "io_keeps g m" and "\<And>e. io_keeps g (h e)" and "\<And>x. io_keeps g (k x)"
  shows "io_keeps g (\<lambda>s. case m s of (Inl e, s') \<Rightarrow> h e s' | (Inr x, s') \<Rightarrow> k x s')"
proof (rule io_keepsI)
  fix s
  obtain r s1 where m: "m s = (r, s1)"
    by (cases "m s")
  have g1: "g s1 = g s"
    using assms(1) m by (rule io_keepsD2)
  show "g (snd (case m s of (Inl e, s') \<Rightarrow> h e s' | (Inr x, s') \<Rightarrow> k x s')) = g s"
    using m g1 io_keepsD [OF assms(2), of _ s1] io_keepsD [OF assms(3), of _ s1]
    by (cases r) simp_all
qed












section \<open>Closing the connections\<close>















end
